theory Spec2Isabelle
  imports Complex_Main "HOL-Library.AList"
begin

section \<open>The SGD solver of minpy (src/minpy/nn/solver.py)\<close>

text \<open>
  The class \<open>Solver\<close> drives the training of a model: \<open>__init__\<close> and \<open>_reset\<close> set the
  book-keeping up, \<open>_step\<close> makes one gradient update, \<open>check_accuracy\<close> evaluates the model
  on an iterator and \<open>train\<close> runs the epochs. The model, the optimizer and initializer
  modules, the gradient mechanism and the data iterators are not part of the file; they are
  fields of the state here, and every theorem holds for all of them.

  The learning rate and its decay factor are Python floats, that is IEEE 754 doubles:
  the product of line 260 is the rounded product \<open>dmul\<close> below. The contents of arrays
  and the accuracies are real numbers: the arithmetic on arrays belongs to the update
  rules and to numpy, and an accuracy is the exact quotient of two counts.
\<close>

subsection \<open>Python floats\<close>

text \<open>
  A double is \<open>Finite s m e\<close>, the number \<open>(-1)^s * m * 2^e\<close>, or an infinity, or
  not-a-number. The doubles themselves have \<open>m < 2^53\<close> and \<open>-1074 \<le> e \<le> 971\<close>, with
  \<open>2^52 \<le> m\<close> unless \<open>e = -1074\<close> (subnormal numbers and zero). \<open>round_double s m e\<close> is
  the double nearest to \<open>(-1)^s * m * 2^e\<close> for any \<open>m\<close> and \<open>e\<close>, ties going to the even
  mantissa and numbers beyond the largest double to infinity; \<open>dmul\<close> is the product of
  two doubles as Python computes it, the exact product rounded once.
\<close>

datatype double = Finite bool nat int | Infinity bool | NaN

fun bitlen :: "nat \<Rightarrow> nat" where
  "bitlen n = (if n = 0 then 0 else Suc (bitlen (n div 2)))"

declare bitlen.simps [simp del]

definition round_double :: "bool \<Rightarrow> nat \<Rightarrow> int \<Rightarrow> double" where
  "round_double s m e =
     (if m = 0 then Finite s 0 (- 1074)
      else
        let e' = max (e + int (bitlen m) - 53) (- 1074) in
        if e' \<le> e then
          (if 971 < e' then Infinity s else Finite s (m * 2 ^ nat (e - e')) e')
        else
          let k = nat (e' - e);
              q = m div 2 ^ k;
              r = m mod 2 ^ k;
              half = 2 ^ (k - 1);
              q' = (if half < r \<or> (r = half \<and> odd q) then q + 1 else q);
              m' = (if q' = 2 ^ 53 then 2 ^ 52 else q');
              e'' = (if q' = 2 ^ 53 then e' + 1 else e')
          in if 971 < e'' then Infinity s else Finite s m' e'')"

fun dmul :: "double \<Rightarrow> double \<Rightarrow> double" where
  "dmul (Finite s1 m1 e1) (Finite s2 m2 e2) = round_double (s1 \<noteq> s2) (m1 * m2) (e1 + e2)"
| "dmul (Finite s1 m1 e1) (Infinity s2) = (if m1 = 0 then NaN else Infinity (s1 \<noteq> s2))"
| "dmul (Infinity s1) (Finite s2 m2 e2) = (if m2 = 0 then NaN else Infinity (s1 \<noteq> s2))"
| "dmul (Infinity s1) (Infinity s2) = Infinity (s1 \<noteq> s2)"
| "dmul NaN b = NaN"
| "dmul a NaN = NaN"

text \<open>The real number that a finite double is.\<close>

fun valof :: "double \<Rightarrow> real option" where
  "valof (Finite s m e) =
     Some ((if s then - 1 else 1) *
           (if 0 \<le> e then real m * 2 ^ nat e else real m / 2 ^ nat (- e)))"
| "valof (Infinity s) = None"
| "valof NaN = None"

text \<open>The floats \<open>0.0\<close> and \<open>1.0\<close>.\<close>

instantiation double :: "{zero, one}"
begin

definition zero_double :: double where
  "zero_double = Finite False 0 (- 1074)"

definition one_double :: double where
  "one_double = Finite False 4503599627370496 (- 52)"

instance ..

end

subsection \<open>Arrays, dictionaries, errors\<close>

text \<open>
  Arrays are mutable objects: a dictionary of parameters holds references (addresses) and
  the store maps an address to the array's current contents. A Python \<open>dict\<close> that the code
  iterates over is an association list in iteration order (its keys are distinct); an
  optimizer configuration, which is only indexed, is a map.
\<close>

type_synonym name = string
type_synonym addr = nat
type_synonym tensor = "real list"
type_synonym heap = "addr \<rightharpoonup> tensor"
type_synonym pdict = "(name \<times> addr) list"

datatype cval = Num double | Ref addr

text \<open>
  A value of an optimizer configuration is a Python float or (the reference of) an array:
  a learning rate, a momentum, a velocity buffer. The copy that \<open>_reset\<close> makes of the
  configuration for every parameter copies the dictionary, not the arrays: a reference in
  \<open>optim_config\<close> is the same reference in every copy.
\<close>

type_synonym config = "string \<rightharpoonup> cval"

datatype error =
    UnrecognizedArguments "string list"
  | InvalidUpdateRule string
  | InvalidInitRule string
  | KeyError string
  | ZeroDivisionError

text \<open>
  The three \<open>ValueError\<close>s of \<open>__init__\<close> differ in their message only
  (\<open>Unrecognized arguments\<close>, \<open>Invalid update_rule\<close>, \<open>Invalid init_rule\<close>); each has a
  constructor of its own. \<open>KeyError\<close> is a failed dictionary lookup, \<open>ZeroDivisionError\<close>
  a division or a modulo by zero.
\<close>

type_synonym update_fn = "heap \<Rightarrow> addr \<Rightarrow> tensor \<Rightarrow> config \<Rightarrow> heap \<times> addr \<times> config"
type_synonym init_fn = "heap \<Rightarrow> nat list \<Rightarrow> config \<Rightarrow> heap \<times> addr"

text \<open>
  An update rule receives the reference \<open>w\<close> of the parameter, the gradient and the
  configuration, and returns the reference of the next value and the next configuration.
  It may write to the store: a rule that updates \<open>w\<close> in place returns \<open>w\<close> itself, a rule
  that builds a new array returns a new address.
\<close>

subsection \<open>Batches and data iterators\<close>

record 'x databatch =
  data :: "'x list"
  label :: "int list"

text \<open>
  \<open>data b\<close> and \<open>label b\<close> are \<open>batch.data[0]\<close> and \<open>batch.label[0]\<close>, the first data stream
  and the first label stream, one entry per example.
\<close>

text \<open>
  Modelled from the spec: the data iterator (minpy's iterator class is not under src/).
  It "produces an ordered, restartable, finite sequence of batches", exposes the total item
  count, the configured batch size, the number of batches per full pass, \<open>reset()\<close>
  ("rewind to start") and a "bounded prefix view of size n"; "exhausting iteration
  leaves it at end". \<open>batches\<close> is the sequence of a full pass, \<open>cursor\<close> the number of
  batches already produced since the last reset, \<open>subiter n\<close> the sequence of batches of
  the prefix view of size \<open>n\<close>.
\<close>

record 'x dataiter =
  num_data :: nat
  batch_size :: nat
  batches :: "'x databatch list"
  cursor :: nat
  subiter :: "nat \<Rightarrow> 'x databatch list"

text \<open>
  Modelled from the spec: the operations of the iterator. \<open>reset_iter\<close> is \<open>reset()\<close>;
  \<open>iterate\<close> is a \<open>for\<close> loop over the iterator, which produces the batches from the
  cursor on and leaves the iterator at its end; \<open>getsubiter\<close> is the prefix view, a new
  iterator at its start with the same configured batch size; \<open>getnumiterations\<close> is the
  number of batches of a full pass.
\<close>

definition reset_iter :: "'x dataiter \<Rightarrow> 'x dataiter" where
  "reset_iter it = it\<lparr>cursor := 0\<rparr>"

definition iterate :: "'x dataiter \<Rightarrow> 'x databatch list \<times> 'x dataiter" where
  "iterate it =
     (drop (cursor it) (batches it), it\<lparr>cursor := max (cursor it) (length (batches it))\<rparr>)"

definition getsubiter :: "'x dataiter \<Rightarrow> nat \<Rightarrow> 'x dataiter" where
  "getsubiter it n =
     \<lparr>num_data = n, batch_size = batch_size it, batches = subiter it n, cursor = 0,
      subiter = subiter it\<rparr>"

definition getnumiterations :: "'x dataiter \<Rightarrow> nat" where
  "getnumiterations it = length (batches it)"

subsection \<open>The model and the solver\<close>

record 'x model =
  params :: pdict
  param_configs :: "(name \<times> nat list) list"
  forward :: "heap \<Rightarrow> pdict \<Rightarrow> 'x list \<Rightarrow> real list list"
  grad_and_loss :: "heap \<Rightarrow> pdict \<Rightarrow> 'x list \<Rightarrow> int list \<Rightarrow> tensor list \<times> real"
  array_imul :: "tensor \<Rightarrow> double \<Rightarrow> tensor"

text \<open>
  \<open>forward\<close> reads the parameters of the model through the store and gives one row of
  class scores per example. \<open>grad_and_loss\<close> stands for \<open>core.grad_and_loss\<close> applied to
  the closure \<open>loss_func\<close> of \<open>_step\<close> (forward pass, then loss, on the batch): it gives the
  gradients in the order of the parameters, and the loss. \<open>array_imul t d\<close> stands for the
  array library: the contents of an array with the contents \<open>t\<close> after \<open>*= d\<close>, for a Python
  float \<open>d\<close> (the product is elementwise and in place; how it rounds depends on the array).
\<close>

datatype observation =
    EpochStart nat
  | IterationLoss nat int real
  | EpochSummary int int real real

text \<open>The lines that \<open>train\<close> prints, in order.\<close>

record 'x solver =
  model :: "'x model"
  train_dataiter :: "'x dataiter"
  test_dataiter :: "'x dataiter"
  init_rule :: init_fn
  init_config :: config
  update_rule :: update_fn
  optim_config :: config
  lr_decay :: double
  solver_batch_size :: nat
  num_epochs :: int
  print_every :: int
  verbose :: bool
  epoch :: int
  best_val_acc :: real
  best_params :: pdict
  loss_history :: "real list"
  train_acc_history :: "real list"
  val_acc_history :: "real list"
  optim_configs :: "(name \<times> config) list"
  init_configs :: "(name \<times> config) list"
  store :: heap
  printed :: "observation list"

text \<open>
  The keyword arguments of \<open>__init__\<close>: one optional field for every key the constructor
  pops, and \<open>kw_rest\<close>, the keys that are left in \<open>kwargs\<close> after the pops.
\<close>

record kwargs =
  kw_init_rule :: "string option"
  kw_init_config :: "config option"
  kw_update_rule :: "string option"
  kw_optim_config :: "config option"
  kw_lr_decay :: "double option"
  kw_batch_size :: "nat option"
  kw_num_epochs :: "int option"
  kw_print_every :: "int option"
  kw_verbose :: "bool option"
  kw_rest :: "string list"

definition pop :: "'a option \<Rightarrow> 'a \<Rightarrow> 'a" where
  "pop v d = (case v of None \<Rightarrow> d | Some x \<Rightarrow> x)"

text \<open>A loop whose body may raise: the first error ends it.\<close>

fun for_each :: "('a \<Rightarrow> 's \<Rightarrow> error + 's) \<Rightarrow> 'a list \<Rightarrow> 's \<Rightarrow> error + 's" where
  "for_each f [] s = Inr s"
| "for_each f (x # xs) s = (case f x s of Inl e \<Rightarrow> Inl e | Inr s' \<Rightarrow> for_each f xs s')"

subsection \<open>\<open>_reset\<close> and \<open>__init__\<close>\<close>

definition reset :: "'x solver \<Rightarrow> 'x solver" where
  "reset s =
     s\<lparr>epoch := 0,
       best_val_acc := 0,
       best_params := [],
       loss_history := [],
       train_acc_history := [],
       val_acc_history := [],
       train_dataiter := reset_iter (train_dataiter s),
       test_dataiter := reset_iter (test_dataiter s),
       optim_configs :=
         fold (\<lambda>p d. AList.update p (optim_config s) d) (map fst (param_configs (model s))) [],
       init_configs :=
         fold (\<lambda>p d. AList.update p (init_config s) d) (map fst (param_configs (model s))) []\<rparr>"

definition Solver_init ::
  "(string \<rightharpoonup> update_fn) \<Rightarrow> (string \<rightharpoonup> init_fn) \<Rightarrow> heap \<Rightarrow>
   'x model \<Rightarrow> 'x dataiter \<Rightarrow> 'x dataiter \<Rightarrow> kwargs \<Rightarrow> error + 'x solver" where
  "Solver_init optim init h m train_it test_it kw =
     (let init_rule_name = pop (kw_init_rule kw) ''xavier'';
          update_rule_name = pop (kw_update_rule kw) ''sgd''
      in if length (kw_rest kw) > 0 then Inl (UnrecognizedArguments (kw_rest kw))
         else case optim update_rule_name of
           None \<Rightarrow> Inl (InvalidUpdateRule update_rule_name)
         | Some upd \<Rightarrow>
             (case init init_rule_name of
                None \<Rightarrow> Inl (InvalidInitRule init_rule_name)
              | Some ini \<Rightarrow>
                  Inr (reset
                    \<lparr>model = m,
                     train_dataiter = train_it,
                     test_dataiter = test_it,
                     init_rule = ini,
                     init_config = pop (kw_init_config kw) Map.empty,
                     update_rule = upd,
                     optim_config = pop (kw_optim_config kw) Map.empty,
                     lr_decay = pop (kw_lr_decay kw) 1,
                     solver_batch_size = pop (kw_batch_size kw) 100,
                     num_epochs = pop (kw_num_epochs kw) 10,
                     print_every = pop (kw_print_every kw) 10,
                     verbose = pop (kw_verbose kw) True,
                     epoch = 0,
                     best_val_acc = 0,
                     best_params = [],
                     loss_history = [],
                     train_acc_history = [],
                     val_acc_history = [],
                     optim_configs = [],
                     init_configs = [],
                     store = h,
                     printed = []\<rparr>)))"

subsection \<open>\<open>_step\<close>\<close>

definition update_param ::
  "(name \<rightharpoonup> tensor) \<Rightarrow> name \<times> addr \<Rightarrow> 'x solver \<Rightarrow> error + 'x solver" where
  "update_param grads pw s =
     (case pw of (p, w) \<Rightarrow>
        (case grads p of
           None \<Rightarrow> Inl (KeyError p)
         | Some dw \<Rightarrow>
             (case map_of (optim_configs s) p of
                None \<Rightarrow> Inl (KeyError p)
              | Some config \<Rightarrow>
                  (case update_rule s (store s) w dw config of
                     (h', next_w, next_config) \<Rightarrow>
                       Inr (s\<lparr>store := h',
                              model := (model s)\<lparr>params := AList.update p next_w (params (model s))\<rparr>,
                              optim_configs := AList.update p next_config (optim_configs s)\<rparr>)))))"

definition step :: "'x solver \<Rightarrow> 'x databatch \<Rightarrow> error + 'x solver" where
  "step s batch =
     (let X_batch = data batch;
          y_batch = label batch;
          items = params (model s);
          param_keys = map fst items
      in case grad_and_loss (model s) (store s) items X_batch y_batch of
           (grad_arrays, loss) \<Rightarrow>
             (let grads = map_of (zip param_keys grad_arrays);
                  s1 = s\<lparr>loss_history := loss_history s @ [loss]\<rparr>
              in for_each (update_param grads) items s1))"

subsection \<open>\<open>check_accuracy\<close>\<close>

text \<open>
  \<open>np.argmax\<close> on a row: the index of the first maximal entry. The rows of a prediction
  are never empty (there is at least one class), and a prediction has one row per label of
  the batch: these are the shapes that the model and the iterator produce, and on them
  \<open>np.sum(np.argmax(predict, axis=1) == label)\<close> is the number of positions where the
  predicted class is the label.
\<close>

fun argmax_from :: "nat \<Rightarrow> real \<Rightarrow> nat \<Rightarrow> real list \<Rightarrow> nat" where
  "argmax_from best bv i [] = best"
| "argmax_from best bv i (x # xs) =
     (if bv < x then argmax_from i x (Suc i) xs else argmax_from best bv (Suc i) xs)"

definition argmax :: "real list \<Rightarrow> nat" where
  "argmax row = (case row of [] \<Rightarrow> 0 | x # xs \<Rightarrow> argmax_from 0 x 1 xs)"

definition batch_matches :: "'x solver \<Rightarrow> 'x databatch \<Rightarrow> nat" where
  "batch_matches s each_batch =
     (let predict = forward (model s) (store s) (params (model s)) (data each_batch)
      in length (filter (\<lambda>(row, l). int (argmax row) = l) (zip predict (label each_batch))))"

fun acc_loop :: "'x solver \<Rightarrow> nat \<Rightarrow> 'x databatch list \<Rightarrow> nat \<times> nat \<Rightarrow> nat \<times> nat" where
  "acc_loop s bsz [] (acc_count, n) = (acc_count, n)"
| "acc_loop s bsz (b # bs) (acc_count, n) =
     acc_loop s bsz bs (acc_count + batch_matches s b, n + bsz)"

text \<open>
  The body of \<open>check_accuracy\<close> after the choice of \<open>check_dataiter\<close>: the loop over the
  batches that the iterator still has, and the quotient. It returns the accuracy and the
  iterator as the loop leaves it.
\<close>

definition accuracy_over :: "'x solver \<Rightarrow> 'x dataiter \<Rightarrow> error + (real \<times> 'x dataiter)" where
  "accuracy_over s check_dataiter =
     (case iterate check_dataiter of
        (bs, it') \<Rightarrow>
          (case acc_loop s (batch_size check_dataiter) bs (0, 0) of
             (acc_count, n) \<Rightarrow>
               if n = 0 then Inl ZeroDivisionError
               else Inr (real acc_count / real n, it')))"

text \<open>
  \<open>check_accuracy\<close> returns the accuracy and the state of the iterator that was passed
  in: consumed if the loop ran over it, untouched if the loop ran over a sub-iterator.
  The argument \<open>batch_size\<close> is not used by the source.
\<close>

definition check_accuracy ::
  "'x solver \<Rightarrow> 'x dataiter \<Rightarrow> nat option \<Rightarrow> nat \<Rightarrow> error + (real \<times> 'x dataiter)" where
  "check_accuracy s dataiter num_samples bsz =
     (let N = num_data dataiter
      in case num_samples of
           None \<Rightarrow> accuracy_over s dataiter
         | Some n \<Rightarrow>
             if N > n then
               (case accuracy_over s (getsubiter dataiter n) of
                  Inl e \<Rightarrow> Inl e
                | Inr (acc, _) \<Rightarrow> Inr (acc, dataiter))
             else accuracy_over s dataiter)"

subsection \<open>\<open>train\<close>\<close>

text \<open>
  Line 260, \<open>self.optim_configs[k]['learning_rate'] *= self.lr_decay\<close>: a float is
  replaced by the rounded product; an array is multiplied in place, so that the
  configuration keeps its reference and every holder of the array sees the new contents.
  (A reference always points into the store.)
\<close>

definition decay_config ::
  "(tensor \<Rightarrow> double \<Rightarrow> tensor) \<Rightarrow> double \<Rightarrow> config \<Rightarrow> heap \<Rightarrow> error + (config \<times> heap)" where
  "decay_config imul d cfg h =
     (case cfg ''learning_rate'' of
        None \<Rightarrow> Inl (KeyError ''learning_rate'')
      | Some (Num x) \<Rightarrow> Inr (cfg(''learning_rate'' \<mapsto> Num (dmul x d)), h)
      | Some (Ref a) \<Rightarrow>
          (case h a of
             None \<Rightarrow> Inr (cfg, h)
           | Some t \<Rightarrow> Inr (cfg, h(a \<mapsto> imul t d))))"

fun decay_all ::
  "(tensor \<Rightarrow> double \<Rightarrow> tensor) \<Rightarrow> double \<Rightarrow> (name \<times> config) list \<Rightarrow> heap \<Rightarrow>
   error + ((name \<times> config) list \<times> heap)" where
  "decay_all imul d [] h = Inr ([], h)"
| "decay_all imul d ((k, cfg) # rest) h =
     (case decay_config imul d cfg h of
        Inl e \<Rightarrow> Inl e
      | Inr (cfg', h1) \<Rightarrow>
          (case decay_all imul d rest h1 of
             Inl e \<Rightarrow> Inl e
           | Inr (rest', h2) \<Rightarrow> Inr ((k, cfg') # rest', h2)))"

definition train_batch ::
  "int \<Rightarrow> 'x databatch \<Rightarrow> nat \<times> 'x solver \<Rightarrow> error + (nat \<times> 'x solver)" where
  "train_batch num_iterations each_batch ts =
     (case ts of (t, s) \<Rightarrow>
        (case step s each_batch of
           Inl e \<Rightarrow> Inl e
         | Inr s1 \<Rightarrow>
             if verbose s1 then
               (if print_every s1 = 0 then Inl ZeroDivisionError
                else if int t mod print_every s1 = 0 then
                  Inr (t + 1,
                       s1\<lparr>printed := printed s1 @
                            [IterationLoss (t + 1) num_iterations (last (loss_history s1))]\<rparr>)
                else Inr (t + 1, s1))
             else Inr (t + 1, s1)))"

definition snapshot :: "pdict \<Rightarrow> pdict" where
  "snapshot ps = fold (\<lambda>kv d. case kv of (k, v) \<Rightarrow> AList.update k v d) ps []"

definition train_epoch ::
  "int \<Rightarrow> nat \<Rightarrow> nat \<times> 'x solver \<Rightarrow> error + (nat \<times> 'x solver)" where
  "train_epoch num_iterations ep ts =
     (case ts of (t, s) \<Rightarrow>
        (let s0 = s\<lparr>printed := printed s @ [EpochStart ep]\<rparr>
         in case iterate (train_dataiter s0) of
              (bs, it') \<Rightarrow>
                (case for_each (train_batch num_iterations) bs (t, s0\<lparr>train_dataiter := it'\<rparr>) of
                   Inl e \<Rightarrow> Inl e
                 | Inr (t', s2) \<Rightarrow>
                     (case check_accuracy s2 (train_dataiter s2) (Some 1000)
                             (solver_batch_size s2) of
                        Inl e \<Rightarrow> Inl e
                      | Inr (train_acc, tr_it) \<Rightarrow>
                          (let s3 = s2\<lparr>train_dataiter := tr_it\<rparr>
                           in case check_accuracy s3 (test_dataiter s3) None
                                     (solver_batch_size s3) of
                                Inl e \<Rightarrow> Inl e
                              | Inr (val_acc, te_it) \<Rightarrow>
                                  (let s4 = s3\<lparr>test_dataiter := te_it,
                                              train_acc_history := train_acc_history s3 @ [train_acc],
                                              val_acc_history := val_acc_history s3 @ [val_acc]\<rparr>;
                                       s5 = s4\<lparr>train_dataiter := reset_iter (train_dataiter s4),
                                              test_dataiter := reset_iter (test_dataiter s4)\<rparr>;
                                       s6 = (if verbose s5 then
                                               s5\<lparr>printed := printed s5 @
                                                    [EpochSummary (epoch s5) (num_epochs s5)
                                                       train_acc val_acc]\<rparr>
                                             else s5);
                                       s7 = (if val_acc > best_val_acc s6 then
                                               s6\<lparr>best_val_acc := val_acc,
                                                  best_params := snapshot (params (model s6))\<rparr>
                                             else s6)
                                   in case decay_all (array_imul (model s7)) (lr_decay s7)
                                             (optim_configs s7) (store s7) of
                                        Inl e \<Rightarrow> Inl e
                                      | Inr (ocs, h') \<Rightarrow>
                                          Inr (t', s7\<lparr>optim_configs := ocs,
                                                      store := h'\<rparr>)))))))"

text \<open>The epoch loop of \<open>train\<close> over the epochs \<open>eps\<close>, from the step counter \<open>t = 0\<close>.\<close>

definition run_epochs :: "nat list \<Rightarrow> 'x solver \<Rightarrow> error + (nat \<times> 'x solver)" where
  "run_epochs eps s =
     for_each
       (train_epoch (int (getnumiterations (train_dataiter s)) * num_epochs s)) eps (0, s)"

definition train :: "'x solver \<Rightarrow> error + 'x solver" where
  "train s =
     (case run_epochs [0..<nat (num_epochs s)] s of
        Inl e \<Rightarrow> Inl e
      | Inr (t, s') \<Rightarrow> Inr (s'\<lparr>model := (model s')\<lparr>params := best_params s'\<rparr>\<rparr>))"

subsection \<open>Closed forms used in the statements\<close>

text \<open>
  The quotient that the loop of \<open>check_accuracy\<close> computes over the batches \<open>bs\<close> of an
  iterator whose configured batch size is \<open>bsz\<close>: the matches of all batches over
  \<open>bsz\<close> times the number of batches.
\<close>

definition ratio :: "'x solver \<Rightarrow> nat \<Rightarrow> 'x databatch list \<Rightarrow> error + real" where
  "ratio s bsz bs =
     (if length bs * bsz = 0 then Inl ZeroDivisionError
      else Inr (real (sum_list (map (batch_matches s) bs)) / real (length bs * bsz)))"

definition value_of :: "error + ('a \<times> 'b) \<Rightarrow> error + 'a" where
  "value_of r = (case r of Inl e \<Rightarrow> Inl e | Inr (a, _) \<Rightarrow> Inr a)"

text \<open>
  An update rule keeps the learning rate when the configuration it returns has the entry
  \<open>learning_rate\<close> of the configuration it received. \<open>stored_lr ocs p\<close> is
  \<open>optim_configs[p]['learning_rate']\<close>.
\<close>

definition lr_preserving :: "update_fn \<Rightarrow> bool" where
  "lr_preserving upd \<longleftrightarrow>
     (\<forall>h w dw c. case upd h w dw c of
        (h', w', c') \<Rightarrow> c' ''learning_rate'' = c ''learning_rate'')"

definition stored_lr :: "(name \<times> config) list \<Rightarrow> name \<Rightarrow> cval option" where
  "stored_lr ocs p = (case map_of ocs p of None \<Rightarrow> None | Some c \<Rightarrow> c ''learning_rate'')"

text \<open>
  The invariant of the learning rate: the update rule is \<open>U\<close>, the configured parameters
  are \<open>K\<close> and every stored configuration has the entry \<open>v\<close> for \<open>learning_rate\<close>.
\<close>

definition lr_inv :: "update_fn \<Rightarrow> name set \<Rightarrow> cval option \<Rightarrow> 'x solver \<Rightarrow> bool" where
  "lr_inv U K v s \<longleftrightarrow> update_rule s = U \<and> fst ` set (optim_configs s) = K \<and>
     (\<forall>c \<in> snd ` set (optim_configs s). c ''learning_rate'' = v)"

text \<open>
  The learning rate after \<open>n\<close> decays: \<open>x\<close> multiplied \<open>n\<close> times by \<open>d\<close>, every product
  rounded. \<open>final_lr r p\<close> reads the learning rate stored for \<open>p\<close> off the result of a run.
\<close>

primrec decayed :: "double \<Rightarrow> double \<Rightarrow> nat \<Rightarrow> double" where
  "decayed x d 0 = x"
| "decayed x d (Suc n) = dmul (decayed x d n) d"

text \<open>The product of two doubles is exact when rounding does not change it.\<close>

definition exact_product :: "double \<Rightarrow> double \<Rightarrow> bool" where
  "exact_product x d =
     (case valof x of
        None \<Rightarrow> False
      | Some a \<Rightarrow>
          (case valof d of
             None \<Rightarrow> False
           | Some b \<Rightarrow> valof (dmul x d) = Some (a * b)))"

definition final_lr :: "error + 'x solver \<Rightarrow> name \<Rightarrow> cval option" where
  "final_lr r p = (case r of Inl e \<Rightarrow> None | Inr s \<Rightarrow> stored_lr (optim_configs s) p)"

text \<open>
  In the words of the specification: the examples of a batch whose predicted class equals
  their label, an example being a position of the batch, and the batches that an
  evaluation runs over (the sub-iterator of size \<open>num_samples\<close> when \<open>num_samples\<close> is
  given and smaller than the item count, else what the iterator itself produces).
\<close>

definition predictions :: "'x solver \<Rightarrow> 'x databatch \<Rightarrow> real list list" where
  "predictions s b = forward (model s) (store s) (params (model s)) (data b)"

definition correct_examples :: "'x solver \<Rightarrow> 'x databatch \<Rightarrow> nat set" where
  "correct_examples s b =
     {i. i < length (label b) \<and> i < length (predictions s b) \<and>
         int (argmax (predictions s b ! i)) = label b ! i}"

definition checked_batches :: "'x dataiter \<Rightarrow> nat option \<Rightarrow> 'x databatch list" where
  "checked_batches d num_samples =
     (case num_samples of
        None \<Rightarrow> drop (cursor d) (batches d)
      | Some n \<Rightarrow> if n < num_data d then subiter d n else drop (cursor d) (batches d))"

text \<open>The contents of the arrays that a parameter dictionary refers to.\<close>

definition deref :: "heap \<Rightarrow> pdict \<Rightarrow> (name \<times> tensor option) list" where
  "deref h ps = map (\<lambda>(k, a). (k, h a)) ps"

text \<open>The epoch indices of the epoch summaries among printed lines.\<close>

fun summary_epochs :: "observation list \<Rightarrow> int list" where
  "summary_epochs [] = []"
| "summary_epochs (EpochSummary i n a v # obs) = i # summary_epochs obs"
| "summary_epochs (_ # obs) = summary_epochs obs"

subsection \<open>A small instance\<close>

text \<open>
  A model with two parameters \<open>w\<close> and \<open>b\<close>, each an array of one entry, and two classes:
  the scores of every example are \<open>[w, 0]\<close>, so that the predicted class is 0 as long as
  \<open>w\<close> is not negative. The gradient of every parameter is 1. The update rule is
  gradient descent written in place, \<open>w -= config['learning_rate'] * dw; return w, config\<close>,
  for a learning rate that is a float or an array of rates. The arithmetic on the contents
  of arrays is exact. The training iterator has 2000 items in two batches of 1000, the test
  iterator 4 items in two batches of 2; all examples are 0 and all labels are \<open>l\<close>.
\<close>

definition the_real :: "double \<Rightarrow> real" where
  "the_real d = (case valof d of None \<Rightarrow> 0 | Some r \<Rightarrow> r)"

definition sgd_inplace :: update_fn where
  "sgd_inplace h w dw config =
     (case config ''learning_rate'' of
        Some (Num lr) \<Rightarrow>
          (case h w of
             Some t \<Rightarrow> (h(w \<mapsto> map (\<lambda>(x, g). x - the_real lr * g) (zip t dw)), w, config)
           | None \<Rightarrow> (h, w, config))
      | Some (Ref a) \<Rightarrow>
          (case h w of
             Some t \<Rightarrow>
               (case h a of
                  Some rates \<Rightarrow>
                    (h(w \<mapsto> map (\<lambda>(x, r, g). x - r * g) (zip t (zip rates dw))), w, config)
                | None \<Rightarrow> (h, w, config))
           | None \<Rightarrow> (h, w, config))
      | None \<Rightarrow> (h, w, config))"

definition demo_imul :: "tensor \<Rightarrow> double \<Rightarrow> tensor" where
  "demo_imul t d = map (\<lambda>x. x * the_real d) t"

definition zeros_init :: init_fn where
  "zeros_init h shape config = (h(length shape \<mapsto> replicate (prod_list shape) 0), length shape)"

definition demo_optim :: "string \<rightharpoonup> update_fn" where
  "demo_optim = [''sgd'' \<mapsto> sgd_inplace]"

definition demo_init :: "string \<rightharpoonup> init_fn" where
  "demo_init = [''xavier'' \<mapsto> zeros_init]"

definition demo_forward :: "heap \<Rightarrow> pdict \<Rightarrow> real list \<Rightarrow> real list list" where
  "demo_forward h ps X =
     map (\<lambda>x. case map_of ps ''w'' of
                 None \<Rightarrow> [0, 0]
               | Some a \<Rightarrow> (case h a of None \<Rightarrow> [0, 0] | Some t \<Rightarrow> [sum_list t, 0])) X"

definition demo_grad :: "heap \<Rightarrow> pdict \<Rightarrow> real list \<Rightarrow> int list \<Rightarrow> tensor list \<times> real" where
  "demo_grad h ps X y = (map (\<lambda>_. [1]) ps, 0)"

definition demo_model :: "real model" where
  "demo_model =
     \<lparr>params = [(''w'', 0), (''b'', 1)],
      param_configs = [(''w'', [1]), (''b'', [1])],
      forward = demo_forward,
      grad_and_loss = demo_grad,
      array_imul = demo_imul\<rparr>"

definition demo_heap :: heap where
  "demo_heap = [0 \<mapsto> [3], 1 \<mapsto> [0] ]"

definition demo_batch :: "nat \<Rightarrow> int \<Rightarrow> real databatch" where
  "demo_batch n l = \<lparr>data = replicate n 0, label = replicate n l\<rparr>"

definition demo_iter :: "nat \<Rightarrow> int \<Rightarrow> real dataiter" where
  "demo_iter bsz l =
     \<lparr>num_data = 2 * bsz, batch_size = bsz, batches = [demo_batch bsz l, demo_batch bsz l],
      cursor = 0,
      subiter = (\<lambda>n. take (n div bsz) [demo_batch bsz l, demo_batch bsz l])\<rparr>"

definition demo_kwargs :: "double \<Rightarrow> double \<Rightarrow> int \<Rightarrow> kwargs" where
  "demo_kwargs lr decay n =
     \<lparr>kw_init_rule = None,
      kw_init_config = None,
      kw_update_rule = Some ''sgd'',
      kw_optim_config = Some [''learning_rate'' \<mapsto> Num lr],
      kw_lr_decay = Some decay,
      kw_batch_size = None,
      kw_num_epochs = Some n,
      kw_print_every = Some 1,
      kw_verbose = Some True,
      kw_rest = []\<rparr>"

text \<open>The solver of the instance before \<open>_reset\<close>, field by field.\<close>

definition demo_state :: "double \<Rightarrow> double \<Rightarrow> int \<Rightarrow> int \<Rightarrow> real solver" where
  "demo_state lr decay n l =
     \<lparr>model = demo_model,
      train_dataiter = demo_iter 1000 0,
      test_dataiter = demo_iter 2 l,
      init_rule = zeros_init,
      init_config = Map.empty,
      update_rule = sgd_inplace,
      optim_config = [''learning_rate'' \<mapsto> Num lr],
      lr_decay = decay,
      solver_batch_size = 100,
      num_epochs = n,
      print_every = 1,
      verbose = True,
      epoch = 0,
      best_val_acc = 0,
      best_params = [],
      loss_history = [],
      train_acc_history = [],
      val_acc_history = [],
      optim_configs = [],
      init_configs = [],
      store = demo_heap,
      printed = []\<rparr>"

definition demo_solver :: "double \<Rightarrow> double \<Rightarrow> int \<Rightarrow> int \<Rightarrow> error + real solver" where
  "demo_solver lr decay n l =
     Solver_init demo_optim demo_init demo_heap demo_model
       (demo_iter 1000 0) (demo_iter 2 l) (demo_kwargs lr decay n)"

text \<open>
  The doubles that Python reads from the literals \<open>0.1\<close>, \<open>0.5\<close>, \<open>0.0125\<close>, \<open>0.001\<close> and
  \<open>0.95\<close>.
\<close>

definition float_0_1 :: double where
  "float_0_1 = Finite False 7205759403792794 (- 56)"

definition float_0_5 :: double where
  "float_0_5 = Finite False 4503599627370496 (- 53)"

definition float_0_0125 :: double where
  "float_0_0125 = Finite False 7205759403792794 (- 59)"

definition float_0_001 :: double where
  "float_0_001 = Finite False 4611686018427388 (- 62)"

definition float_0_95 :: double where
  "float_0_95 = Finite False 8556839292003942 (- 53)"

text \<open>
  The instance with one array of rates for the learning rate: the array \<open>[1]\<close> at the
  address 2, which the configuration refers to.
\<close>

definition shared_rate_state :: "real solver" where
  "shared_rate_state =
     (demo_state 1 float_0_5 1 0)
       \<lparr>optim_config := [''learning_rate'' \<mapsto> Ref 2], store := demo_heap(2 \<mapsto> [1])\<rparr>"

text \<open>
  A second instance, for the accuracy: a model with three classes whose scores for an
  example are the example itself, and an iterator of 6 items with the configured batch
  size 4. Its first batch has the predictions 0, 1, 2, 0 (the last one by a tie, which
  the first index wins) for the labels 0, 1, 1, 0; its second batch, of two examples, has
  the predictions 1, 0 for the labels 1, 1.
\<close>

definition echo_batch1 :: "real list databatch" where
  "echo_batch1 = \<lparr>data = [ [1, 0, 0], [0, 2, 1], [0, 0, 3], [5, 5, 1] ], label = [0, 1, 1, 0]\<rparr>"

definition echo_batch2 :: "real list databatch" where
  "echo_batch2 = \<lparr>data = [ [0, 1, 0], [1, 0, 0] ], label = [1, 1]\<rparr>"

definition echo_iter :: "real list dataiter" where
  "echo_iter =
     \<lparr>num_data = 6, batch_size = 4, batches = [echo_batch1, echo_batch2], cursor = 0,
      subiter = (\<lambda>n. take (n div 4) [echo_batch1, echo_batch2])\<rparr>"

definition echo_state :: "real list solver" where
  "echo_state =
     \<lparr>model = \<lparr>params = [], param_configs = [], forward = (\<lambda>h ps X. X),
                grad_and_loss = (\<lambda>h ps X y. ([], 0)), array_imul = demo_imul\<rparr>,
      train_dataiter = echo_iter,
      test_dataiter = echo_iter,
      init_rule = zeros_init,
      init_config = Map.empty,
      update_rule = sgd_inplace,
      optim_config = Map.empty,
      lr_decay = 1,
      solver_batch_size = 100,
      num_epochs = 1,
      print_every = 1,
      verbose = True,
      epoch = 0,
      best_val_acc = 0,
      best_params = [],
      loss_history = [],
      train_acc_history = [],
      val_acc_history = [],
      optim_configs = [],
      init_configs = [],
      store = Map.empty,
      printed = []\<rparr>"

text \<open>
  Two iterators that produce one batch of two examples, both predicted correctly: one
  with the configured batch size 1, one with the configured batch size 0.
\<close>

definition echo_batch3 :: "real list databatch" where
  "echo_batch3 = \<lparr>data = [ [0, 1], [1, 0] ], label = [1, 0]\<rparr>"

definition long_batch_iter :: "real list dataiter" where
  "long_batch_iter =
     \<lparr>num_data = 2, batch_size = 1, batches = [echo_batch3], cursor = 0,
      subiter = (\<lambda>n. take n [echo_batch3])\<rparr>"

definition zero_size_iter :: "real list dataiter" where
  "zero_size_iter =
     \<lparr>num_data = 2, batch_size = 0, batches = [echo_batch3], cursor = 0,
      subiter = (\<lambda>n. take n [echo_batch3])\<rparr>"

subsection \<open>What a step leaves alone\<close>

definition step_frame :: "'x solver \<Rightarrow> 'x solver \<Rightarrow> bool" where
  "step_frame s s' \<longleftrightarrow>
     train_dataiter s' = train_dataiter s \<and> test_dataiter s' = test_dataiter s \<and>
     update_rule s' = update_rule s \<and> lr_decay s' = lr_decay s \<and>
     num_epochs s' = num_epochs s \<and> print_every s' = print_every s \<and>
     verbose s' = verbose s \<and> epoch s' = epoch s \<and>
     best_val_acc s' = best_val_acc s \<and> best_params s' = best_params s \<and>
     train_acc_history s' = train_acc_history s \<and> val_acc_history s' = val_acc_history s \<and>
     solver_batch_size s' = solver_batch_size s \<and> optim_config s' = optim_config s \<and>
     param_configs (model s') = param_configs (model s)"

section \<open>Loops and frames\<close>

lemma for_each_append:
  "for_each f (xs @ ys) s = (case for_each f xs s of Inl e \<Rightarrow> Inl e | Inr s' \<Rightarrow> for_each f ys s')"
  by (induction xs arbitrary: s) (auto split: sum.splits)

lemma for_each_rel:
  assumes "for_each f xs s = Inr s'"
    and "\<And>x a b. f x a = Inr b \<Longrightarrow> R a b"
    and "\<And>a. R a a" and "\<And>a b c. R a b \<Longrightarrow> R b c \<Longrightarrow> R a c"
  shows "R s s'"
  using assms(1)
proof (induction xs arbitrary: s)
  case Nil
  then show ?case by (simp add: assms(3))
next
  case (Cons x xs)
  then obtain s1 where 1: "f x s = Inr s1" and 2: "for_each f xs s1 = Inr s'"
    by (auto split: sum.splits)
  from assms(2)[OF 1] Cons.IH[OF 2] show ?case by (rule assms(4))
qed

lemma for_each_inv:
  assumes "for_each f xs s = Inr s'" and "P s"
    and "\<And>x a b. P a \<Longrightarrow> f x a = Inr b \<Longrightarrow> P b"
  shows "P s'"
  using assms(1,2)
proof (induction xs arbitrary: s)
  case Nil
  then show ?case by simp
next
  case (Cons x xs)
  then obtain s1 where 1: "f x s = Inr s1" and 2: "for_each f xs s1 = Inr s'"
    by (auto split: sum.splits)
  show ?case using Cons.IH[OF 2 assms(3)[OF Cons.prems(2) 1] ] .
qed

lemma step_frame_refl: "step_frame s s"
  by (simp add: step_frame_def)

lemma step_frame_trans: "step_frame a b \<Longrightarrow> step_frame b c \<Longrightarrow> step_frame a c"
  by (simp add: step_frame_def)

lemma update_param_frame:
  "update_param g pw s = Inr s' \<Longrightarrow>
     step_frame s s' \<and> loss_history s' = loss_history s \<and> printed s' = printed s"
  by (auto simp: update_param_def step_frame_def split: prod.splits option.splits)

lemma for_each_update_param_frame:
  assumes "for_each (update_param g) ps s = Inr s'"
  shows "step_frame s s' \<and> loss_history s' = loss_history s \<and> printed s' = printed s"
proof (rule for_each_rel [OF assms, where R = "\<lambda>a b. step_frame a b \<and> loss_history b = loss_history a \<and> printed b = printed a"])
qed (auto dest: update_param_frame simp: step_frame_refl intro: step_frame_trans)

lemma step_effect:
  assumes "step s b = Inr s'"
  shows "step_frame s s' \<and> printed s' = printed s \<and>
    loss_history s' = loss_history s @
      [snd (grad_and_loss (model s) (store s) (params (model s)) (data b) (label b))]"
proof -
  obtain gs l where gl: "grad_and_loss (model s) (store s) (params (model s)) (data b) (label b) = (gs, l)"
    by (cases "grad_and_loss (model s) (store s) (params (model s)) (data b) (label b)")
  with assms have "for_each (update_param (map_of (zip (map fst (params (model s))) gs)))
     (params (model s)) (s\<lparr>loss_history := loss_history s @ [l]\<rparr>) = Inr s'"
    by (simp add: step_def Let_def)
  from for_each_update_param_frame[OF this] gl show ?thesis
    by (simp add: step_frame_def)
qed

lemma train_batch_effect:
  assumes "train_batch n b (t, s) = Inr (t', s')"
  shows "step_frame s s' \<and> t' = t + 1 \<and> length (loss_history s') = length (loss_history s) + 1
    \<and> (\<exists>new. printed s' = printed s @ new \<and> summary_epochs new = [])"
proof -
  from assms obtain s1 where 1: "step s b = Inr s1"
    by (auto simp: train_batch_def split: sum.splits)
  note e = step_effect[OF 1]
  from assms 1 have "t' = t + 1 \<and> (s' = s1 \<or> (\<exists>x. s' = s1\<lparr>printed := printed s1 @ [IterationLoss (t+1) n x]\<rparr>))"
    by (auto simp: train_batch_def split: if_splits)
  with e show ?thesis by (auto simp: step_frame_def)
qed


lemma summary_epochs_append:
  "summary_epochs (xs @ ys) = summary_epochs xs @ summary_epochs ys"
  by (induction xs rule: summary_epochs.induct) auto

lemma train_batches_effect:
  "for_each (train_batch n) bs (t, s) = Inr (t', s') \<Longrightarrow>
     step_frame s s' \<and> t' = t + length bs \<and>
     length (loss_history s') = length (loss_history s) + length bs \<and>
     (\<exists>new. printed s' = printed s @ new \<and> summary_epochs new = [])"
proof (induction bs arbitrary: t s)
  case Nil
  then show ?case by (simp add: step_frame_refl)
next
  case (Cons b bs)
  then obtain t1 s1 where 1: "train_batch n b (t, s) = Inr (t1, s1)"
    and 2: "for_each (train_batch n) bs (t1, s1) = Inr (t', s')"
    by (auto split: sum.splits)
  from train_batch_effect[OF 1] Cons.IH[OF 2] show ?case
    by (auto intro: step_frame_trans simp: summary_epochs_append)
qed

lemma accuracy_over_iter:
  "accuracy_over s d = Inr (a, d') \<Longrightarrow> batches d' = batches d"
  by (auto simp: accuracy_over_def iterate_def split: prod.splits if_splits)

lemma check_accuracy_iter:
  "check_accuracy s d ns b = Inr (a, d') \<Longrightarrow> batches d' = batches d"
  by (auto simp: check_accuracy_def Let_def dest: accuracy_over_iter
      split: option.splits if_splits sum.splits)

lemma train_epoch_cases:
  assumes "train_epoch n ep (t, s) = Inr (t', s')"
  obtains s2 train_acc tr_it val_acc te_it ocs h' where
    "for_each (train_batch n) (drop (cursor (train_dataiter s)) (batches (train_dataiter s)))
       (t, s\<lparr>printed := printed s @ [EpochStart ep],
             train_dataiter := snd (iterate (train_dataiter s))\<rparr>) = Inr (t', s2)"
    "check_accuracy s2 (train_dataiter s2) (Some 1000) (solver_batch_size s2)
       = Inr (train_acc, tr_it)"
    "check_accuracy (s2\<lparr>train_dataiter := tr_it\<rparr>) (test_dataiter s2) None
       (solver_batch_size s2) = Inr (val_acc, te_it)"
    "decay_all (array_imul (model s2)) (lr_decay s2) (optim_configs s2) (store s2) = Inr (ocs, h')"
    "s' = s2\<lparr>train_dataiter := reset_iter tr_it,
             test_dataiter := reset_iter te_it,
             train_acc_history := train_acc_history s2 @ [train_acc],
             val_acc_history := val_acc_history s2 @ [val_acc],
             printed := printed s2 @
               (if verbose s2 then [EpochSummary (epoch s2) (num_epochs s2) train_acc val_acc]
                else []),
             best_val_acc := (if best_val_acc s2 < val_acc then val_acc else best_val_acc s2),
             best_params :=
               (if best_val_acc s2 < val_acc then snapshot (params (model s2))
                else best_params s2),
             optim_configs := ocs,
             store := h'\<rparr>"
proof -
  obtain bs it' where it: "iterate (train_dataiter s) = (bs, it')"
    by (cases "iterate (train_dataiter s)")
  then have bs: "bs = drop (cursor (train_dataiter s)) (batches (train_dataiter s))"
    and it': "it' = snd (iterate (train_dataiter s))"
    by (auto simp: iterate_def)
  from assms it obtain s2 where
    1: "for_each (train_batch n) bs
          (t, s\<lparr>printed := printed s @ [EpochStart ep], train_dataiter := it'\<rparr>) = Inr (t', s2)"
    by (auto simp: train_epoch_def Let_def split: sum.splits prod.splits)
  from assms it 1 obtain train_acc tr_it where
    2: "check_accuracy s2 (train_dataiter s2) (Some 1000) (solver_batch_size s2)
          = Inr (train_acc, tr_it)"
    by (auto simp: train_epoch_def Let_def split: sum.splits prod.splits)
  from assms it 1 2 obtain val_acc te_it where
    3: "check_accuracy (s2\<lparr>train_dataiter := tr_it\<rparr>) (test_dataiter s2) None
          (solver_batch_size s2) = Inr (val_acc, te_it)"
    by (auto simp: train_epoch_def Let_def split: sum.splits prod.splits)
  from assms it 1 2 3 obtain ocs h' where
    4: "decay_all (array_imul (model s2)) (lr_decay s2) (optim_configs s2) (store s2)
          = Inr (ocs, h')"
    by (cases "verbose s2"; cases "best_val_acc s2 < val_acc")
       (auto simp: train_epoch_def Let_def split: sum.splits)
  from assms it 1 2 3 4 have
    5: "s' = s2\<lparr>train_dataiter := reset_iter tr_it,
             test_dataiter := reset_iter te_it,
             train_acc_history := train_acc_history s2 @ [train_acc],
             val_acc_history := val_acc_history s2 @ [val_acc],
             printed := printed s2 @
               (if verbose s2 then [EpochSummary (epoch s2) (num_epochs s2) train_acc val_acc]
                else []),
             best_val_acc := (if best_val_acc s2 < val_acc then val_acc else best_val_acc s2),
             best_params :=
               (if best_val_acc s2 < val_acc then snapshot (params (model s2))
                else best_params s2),
             optim_configs := ocs,
             store := h'\<rparr>"
    by (cases "verbose s2"; cases "best_val_acc s2 < val_acc")
       (auto simp: train_epoch_def Let_def)
  show thesis
    using that [OF 1 [unfolded bs it'] 2 3 4 5] .
qed

lemma train_epoch_summary:
  assumes "train_epoch n ep (t, s) = Inr (t', s')"
  shows "\<exists>v a. val_acc_history s' = val_acc_history s @ [v]
    \<and> train_acc_history s' = train_acc_history s @ [a]
    \<and> best_val_acc s' = (if best_val_acc s < v then v else best_val_acc s)
    \<and> best_params s' =
        (if best_val_acc s < v then snapshot (params (model s')) else best_params s)
    \<and> epoch s' = epoch s \<and> num_epochs s' = num_epochs s \<and> verbose s' = verbose s
    \<and> lr_decay s' = lr_decay s \<and> update_rule s' = update_rule s
    \<and> optim_config s' = optim_config s \<and> print_every s' = print_every s
    \<and> param_configs (model s') = param_configs (model s)
    \<and> batches (train_dataiter s') = batches (train_dataiter s)
    \<and> cursor (train_dataiter s') = 0 \<and> cursor (test_dataiter s') = 0
    \<and> length (loss_history s') =
        length (loss_history s) + (length (batches (train_dataiter s)) - cursor (train_dataiter s))
    \<and> (\<exists>new. printed s' = printed s @ new
          \<and> summary_epochs new = (if verbose s then [epoch s] else []))"
proof -
  from assms obtain s2 train_acc tr_it val_acc te_it ocs h' where
    1: "for_each (train_batch n) (drop (cursor (train_dataiter s)) (batches (train_dataiter s)))
       (t, s\<lparr>printed := printed s @ [EpochStart ep],
             train_dataiter := snd (iterate (train_dataiter s))\<rparr>) = Inr (t', s2)"
    and 2: "check_accuracy s2 (train_dataiter s2) (Some 1000) (solver_batch_size s2)
       = Inr (train_acc, tr_it)"
    and 5: "s' = s2\<lparr>train_dataiter := reset_iter tr_it,
             test_dataiter := reset_iter te_it,
             train_acc_history := train_acc_history s2 @ [train_acc],
             val_acc_history := val_acc_history s2 @ [val_acc],
             printed := printed s2 @
               (if verbose s2 then [EpochSummary (epoch s2) (num_epochs s2) train_acc val_acc]
                else []),
             best_val_acc := (if best_val_acc s2 < val_acc then val_acc else best_val_acc s2),
             best_params :=
               (if best_val_acc s2 < val_acc then snapshot (params (model s2))
                else best_params s2),
             optim_configs := ocs,
             store := h'\<rparr>"
    by (rule train_epoch_cases)
  from train_batches_effect[OF 1] obtain new where
    f: "step_frame (s\<lparr>printed := printed s @ [EpochStart ep],
             train_dataiter := snd (iterate (train_dataiter s))\<rparr>) s2"
    and l: "length (loss_history s2) = length (loss_history s) +
        (length (batches (train_dataiter s)) - cursor (train_dataiter s))"
    and p: "printed s2 = printed s @ [EpochStart ep] @ new" and n: "summary_epochs new = []"
    by auto
  have b: "batches tr_it = batches (train_dataiter s)"
    using check_accuracy_iter[OF 2] f by (simp add: step_frame_def iterate_def)
  show ?thesis
    apply (rule exI[of _ val_acc], rule exI[of _ train_acc])
    using f l p n b unfolding 5
    by (simp add: step_frame_def reset_iter_def summary_epochs_append)
qed

lemma epochs_loop_effect:
  assumes "for_each (train_epoch n) eps (t, s) = Inr (t', s')"
    and "cursor (train_dataiter s) = 0"
  shows "epoch s' = epoch s \<and> num_epochs s' = num_epochs s \<and> verbose s' = verbose s
    \<and> lr_decay s' = lr_decay s \<and> update_rule s' = update_rule s
    \<and> optim_config s' = optim_config s
    \<and> param_configs (model s') = param_configs (model s)
    \<and> batches (train_dataiter s') = batches (train_dataiter s)
    \<and> cursor (train_dataiter s') = 0
    \<and> length (loss_history s') =
        length (loss_history s) + length eps * length (batches (train_dataiter s))
    \<and> length (val_acc_history s') = length (val_acc_history s) + length eps
    \<and> (\<exists>new. printed s' = printed s @ new
          \<and> summary_epochs new = (if verbose s then replicate (length eps) (epoch s) else []))"
  using assms
proof (induction eps arbitrary: t s)
  case Nil
  then show ?case by simp
next
  case (Cons ep eps)
  then obtain t1 s1 where 1: "train_epoch n ep (t, s) = Inr (t1, s1)"
    and 2: "for_each (train_epoch n) eps (t1, s1) = Inr (t', s')"
    by (auto split: sum.splits)
  note e = train_epoch_summary[OF 1]
  then have c: "cursor (train_dataiter s1) = 0" by auto
  from e Cons.prems(2) Cons.IH[OF 2 c] show ?case
    by (auto simp: summary_epochs_append)
qed

lemma best_val_acc_loop:
  assumes "for_each (train_epoch n) eps (t, s) = Inr (t', s')"
  shows "best_val_acc s \<le> best_val_acc s' \<and>
    (best_val_acc s = Max (insert 0 (set (val_acc_history s))) \<longrightarrow>
     best_val_acc s' = Max (insert 0 (set (val_acc_history s'))))"
  using assms
proof (induction eps arbitrary: t s)
  case Nil
  then show ?case by simp
next
  case (Cons ep eps)
  then obtain t1 s1 where 1: "train_epoch n ep (t, s) = Inr (t1, s1)"
    and 2: "for_each (train_epoch n) eps (t1, s1) = Inr (t', s')"
    by (auto split: sum.splits)
  from train_epoch_summary[OF 1] obtain v where
    h: "val_acc_history s1 = val_acc_history s @ [v]"
    and b: "best_val_acc s1 = (if best_val_acc s < v then v else best_val_acc s)"
    by auto
  have m: "best_val_acc s = Max (insert 0 (set (val_acc_history s))) \<Longrightarrow>
     best_val_acc s1 = Max (insert 0 (set (val_acc_history s1)))"
  proof -
    assume a: "best_val_acc s = Max (insert 0 (set (val_acc_history s)))"
    define M where "M = Max (insert 0 (set (val_acc_history s)))"
    have "Max (insert 0 (set (val_acc_history s1))) =
        Max (insert v (insert 0 (set (val_acc_history s))))"
      by (simp add: h insert_commute)
    also have "\<dots> = max v M"
      unfolding M_def by (rule Max_insert) auto
    finally have "Max (insert 0 (set (val_acc_history s1))) = max v M" .
    moreover have "best_val_acc s1 = max v M"
      using a b unfolding M_def [symmetric] by (simp add: max_def)
    ultimately show ?thesis by simp
  qed
  from b have "best_val_acc s \<le> best_val_acc s1" by simp
  with m Cons.IH[OF 2] show ?case by auto
qed

lemma no_snapshot_loop:
  assumes "for_each (train_epoch n) eps (t, s) = Inr (t', s')"
    and "best_val_acc s = 0" and "best_params s = []"
    and "\<forall>v \<in> set (val_acc_history s'). \<not> 0 < v"
  shows "best_val_acc s' = 0 \<and> best_params s' = []"
  using assms
proof (induction eps arbitrary: t s)
  case Nil
  then show ?case by simp
next
  case (Cons ep eps)
  then obtain t1 s1 where 1: "train_epoch n ep (t, s) = Inr (t1, s1)"
    and 2: "for_each (train_epoch n) eps (t1, s1) = Inr (t', s')"
    by (auto split: sum.splits)
  from train_epoch_summary[OF 1] obtain v where
    h: "val_acc_history s1 = val_acc_history s @ [v]"
    and b: "best_val_acc s1 = (if best_val_acc s < v then v else best_val_acc s)"
    and p: "best_params s1 =
        (if best_val_acc s < v then snapshot (params (model s1)) else best_params s)"
    by auto
  have "\<exists>ys. val_acc_history s' = val_acc_history s1 @ ys"
    using 2
  proof (induction eps arbitrary: t1 s1)
    case Nil
    then show ?case by simp
  next
    case (Cons e es)
    then obtain t2 s2 where 3: "train_epoch n e (t1, s1) = Inr (t2, s2)"
      and 4: "for_each (train_epoch n) es (t2, s2) = Inr (t', s')"
      by (auto split: sum.splits)
    from train_epoch_summary[OF 3] Cons.IH[OF 4] show ?case by auto
  qed
  with h Cons.prems(4) have "\<not> 0 < v" by auto
  with b p Cons.prems(2,3) have "best_val_acc s1 = 0" "best_params s1 = []" by auto
  from Cons.IH[OF 2 this Cons.prems(4)] show ?case .
qed

section \<open>Runs of the small instance\<close>

lemma bitlen_0: "bitlen 0 = 0"
  by (simp add: bitlen.simps)

lemma bitlen_1: "bitlen 1 = 1" "bitlen (Suc 0) = 1"
  by (simp_all add: bitlen.simps)

lemma bitlen_numeral: "bitlen (numeral k) = Suc (bitlen (numeral k div 2))"
  by (subst bitlen.simps) simp

lemmas double_eval = round_double_def Let_def bitlen_0 bitlen_1 bitlen_numeral one_double_def
  zero_double_def float_0_1_def float_0_5_def float_0_0125_def float_0_001_def float_0_95_def

text \<open>The products of doubles that the runs below need, each computed once.\<close>

lemma dmul_unit:
  "dmul 1 1 = 1"
  "dmul 0 1 = 0"
  by (simp_all add: double_eval)

lemma dmul_half:
  "dmul float_0_1 float_0_5 = Finite False 7205759403792794 (- 57)"
  "dmul (Finite False 7205759403792794 (- 57)) float_0_5 = Finite False 7205759403792794 (- 58)"
  "dmul (Finite False 7205759403792794 (- 58)) float_0_5 = float_0_0125"
  by (simp_all add: double_eval)

lemma dmul_0_95:
  "dmul float_0_001 float_0_95 = Finite False 8762203435012037 (- 63)"
  "dmul (Finite False 8762203435012037 (- 63)) float_0_95 = Finite False 8324093263261435 (- 63)"
  "dmul (Finite False 8324093263261435 (- 63)) float_0_95 = Finite False 7907888600098363 (- 63)"
  "dmul (Finite False 7907888600098363 (- 63)) float_0_95 = Finite False 7512494170093444 (- 63)"
  "dmul (Finite False 7512494170093444 (- 63)) float_0_95 = Finite False 7136869461588771 (- 63)"
  "dmul (Finite False 7136869461588771 (- 63)) float_0_95 = Finite False 6780025988509332 (- 63)"
  "dmul (Finite False 6780025988509332 (- 63)) float_0_95 = Finite False 6441024689083865 (- 63)"
  "dmul (Finite False 6441024689083865 (- 63)) float_0_95 = Finite False 6118973454629671 (- 63)"
  "dmul (Finite False 6118973454629671 (- 63)) float_0_95 = Finite False 5813024781898187 (- 63)"
  "dmul (Finite False 5813024781898187 (- 63)) float_0_95 = Finite False 5522373542803277 (- 63)"
  by (simp_all add: double_eval)

lemma the_real_Finite:
  "the_real (Finite s m e) =
     (if s then - 1 else 1) * (if 0 \<le> e then real m * 2 ^ nat e else real m / 2 ^ nat (- e))"
  by (simp add: the_real_def)

lemma the_real_consts:
  "the_real 1 = 1"
  "the_real 0 = 0"
  "the_real float_0_5 = 1 / 2"
  "the_real float_0_1 = 7205759403792794 / 2 ^ 56"
  "the_real float_0_001 = 4611686018427388 / 2 ^ 62"
  by (simp_all add: the_real_def double_eval)

lemmas demo_defs = demo_state_def demo_iter_def demo_batch_def demo_heap_def
  demo_model_def demo_grad_def demo_forward_def demo_imul_def reset_def reset_iter_def
  dmul_unit dmul_half dmul_0_95 the_real_Finite the_real_consts

lemmas run_defs = train_def run_epochs_def train_epoch_def train_batch_def step_def update_param_def
  check_accuracy_def accuracy_over_def iterate_def getsubiter_def getnumiterations_def batch_matches_def
  argmax_def decay_config_def snapshot_def sgd_inplace_def deref_def

text \<open>The constructor returns the reset solver of the instance.\<close>

lemma demo_solver_eq: "demo_solver lr d n l = Inr (reset (demo_state lr d n l))"
  by (simp add: demo_solver_def Solver_init_def demo_kwargs_def demo_optim_def demo_init_def
      pop_def demo_state_def)

lemma demo_run_A:
  "\<exists>s'. train (reset (demo_state 1 1 2 0)) = Inr s' \<and> val_acc_history s' = [1, 0]
     \<and> best_val_acc s' = 1 \<and> length (loss_history s') = 4
     \<and> summary_epochs (printed s') = [0, 0]
     \<and> deref (store s') (params (model s')) = [(''w'', Some [- 1]), (''b'', Some [- 4])]"
  by (simp add: demo_defs run_defs Let_def upt_conv_Cons)

lemma demo_run_C:
  "\<exists>s'. train (reset (demo_state 0 1 2 1)) = Inr s' \<and> val_acc_history s' = [0, 0]
     \<and> params (model s') = []"
  by (simp add: demo_defs run_defs Let_def upt_conv_Cons)

lemma epochs_loop_epoch:
  assumes "for_each (train_epoch n) eps (t, s) = Inr (t', s')"
  shows "epoch s' = epoch s"
  using assms
proof (induction eps arbitrary: t s)
  case Nil
  then show ?case by simp
next
  case (Cons ep eps)
  then obtain t1 s1 where 1: "train_epoch n ep (t, s) = Inr (t1, s1)"
    and 2: "for_each (train_epoch n) eps (t1, s1) = Inr (t', s')"
    by (auto split: sum.splits)
  from train_epoch_summary[OF 1] Cons.IH[OF 2] show ?case by auto
qed

lemma train_cases:
  assumes "train s = Inr s'"
  obtains t s1 where "run_epochs [0..<nat (num_epochs s)] s = Inr (t, s1)"
    and "s' = s1\<lparr>model := (model s1)\<lparr>params := best_params s1\<rparr>\<rparr>"
  using assms by (auto simp: train_def split: sum.splits)

lemma reset_fields:
  "epoch (reset s) = 0" "best_val_acc (reset s) = 0" "best_params (reset s) = []"
  "loss_history (reset s) = []" "val_acc_history (reset s) = []"
  "cursor (train_dataiter (reset s)) = 0"
  "batches (train_dataiter (reset s)) = batches (train_dataiter s)"
  "num_epochs (reset s) = num_epochs s" "verbose (reset s) = verbose s"
  "printed (reset s) = printed s" "lr_decay (reset s) = lr_decay s"
  "update_rule (reset s) = update_rule s" "optim_config (reset s) = optim_config s"
  "model (reset s) = model s"
  by (simp_all add: reset_def reset_iter_def)

section \<open>The learning rate through a run\<close>

lemma set_update_subset:
  "(k', c) \<in> set (AList.update k v al) \<Longrightarrow> (k', c) = (k, v) \<or> (k', c) \<in> set al"
  by (induction al) (auto split: if_splits)

lemma update_param_lr:
  assumes "update_param g pw s = Inr s'" and "lr_preserving U" and "lr_inv U K v s"
  shows "lr_inv U K v s'"
proof -
  obtain p w where pw: "pw = (p, w)" by (cases pw)
  from assms(1) pw obtain dw config h' next_w next_config where
    c: "map_of (optim_configs s) p = Some config"
    and u: "update_rule s (store s) w dw config = (h', next_w, next_config)"
    and s': "s' = s\<lparr>store := h',
                  model := (model s)\<lparr>params := AList.update p next_w (params (model s))\<rparr>,
                  optim_configs := AList.update p next_config (optim_configs s)\<rparr>"
    by (auto simp: update_param_def split: option.splits prod.splits)
  from c have m: "(p, config) \<in> set (optim_configs s)" by (rule map_of_SomeD)
  with assms(3) have "config ''learning_rate'' = v" and "p \<in> K"
    by (force simp: lr_inv_def)+
  moreover from assms(2,3) u have "next_config ''learning_rate'' = config ''learning_rate''"
    by (auto simp: lr_preserving_def lr_inv_def split: prod.splits dest!: spec)
  ultimately show ?thesis
    using assms(3) unfolding lr_inv_def s'
    by (auto simp: dom_update dest!: set_update_subset)
qed

lemma step_lr:
  assumes "step s b = Inr s'" and "lr_preserving U" and "lr_inv U K v s"
  shows "lr_inv U K v s'"
proof -
  obtain gs l where gl: "grad_and_loss (model s) (store s) (params (model s)) (data b) (label b) = (gs, l)"
    by (cases "grad_and_loss (model s) (store s) (params (model s)) (data b) (label b)")
  with assms(1) have f: "for_each (update_param (map_of (zip (map fst (params (model s))) gs)))
     (params (model s)) (s\<lparr>loss_history := loss_history s @ [l]\<rparr>) = Inr s'"
    by (simp add: step_def Let_def)
  have "lr_inv U K v (s\<lparr>loss_history := loss_history s @ [l]\<rparr>)"
    using assms(3) by (simp add: lr_inv_def)
  from for_each_inv [OF f, of "lr_inv U K v", OF this] show ?thesis
    using update_param_lr [OF _ assms(2)] by blast
qed

lemma train_batch_lr:
  assumes "train_batch n b (t, s) = Inr (t', s')" and "lr_preserving U" and "lr_inv U K v s"
  shows "lr_inv U K v s'"
proof -
  from assms(1) obtain s1 where 1: "step s b = Inr s1"
    by (auto simp: train_batch_def split: sum.splits)
  from assms(1) 1 have "optim_configs s' = optim_configs s1 \<and> update_rule s' = update_rule s1"
    by (auto simp: train_batch_def split: if_splits)
  with step_lr [OF 1 assms(2,3)] show ?thesis by (simp add: lr_inv_def)
qed

lemma train_batches_lr:
  assumes "for_each (train_batch n) bs (t, s) = Inr (t', s')" and "lr_preserving U"
    and "lr_inv U K v s"
  shows "lr_inv U K v s'"
proof -
  have "lr_inv U K v (snd (t', s'))"
  proof (rule for_each_inv [OF assms(1), of "\<lambda>ts. lr_inv U K v (snd ts)"])
    show "lr_inv U K v (snd (t, s))" using assms(3) by simp
  next
    fix x a b
    assume "lr_inv U K v (snd a)" and "train_batch n x a = Inr b"
    then show "lr_inv U K v (snd b)"
      using train_batch_lr [OF _ assms(2), of n x "fst a" "snd a" "fst b" "snd b"] by simp
  qed
  then show ?thesis by simp
qed

lemma decay_all_lr:
  assumes "decay_all imul d ocs h = Inr (ocs', h')"
    and "\<forall>c \<in> snd ` set ocs. c ''learning_rate'' = Some (Num x)"
  shows "map fst ocs' = map fst ocs \<and>
    (\<forall>c \<in> snd ` set ocs'. c ''learning_rate'' = Some (Num (dmul x d)))"
  using assms
proof (induction ocs arbitrary: ocs' h)
  case Nil
  then show ?case by simp
next
  case (Cons kc ocs)
  obtain k c where kc: "kc = (k, c)" by (cases kc)
  from Cons.prems(1) kc obtain c' h1 rest' where
    1: "decay_config imul d c h = Inr (c', h1)" and 2: "decay_all imul d ocs h1 = Inr (rest', h')"
    and 3: "ocs' = (k, c') # rest'"
    by (auto split: sum.splits prod.splits)
  from Cons.prems(2) kc have "c ''learning_rate'' = Some (Num x)" by simp
  with 1 have "c' ''learning_rate'' = Some (Num (dmul x d))"
    by (auto simp: decay_config_def)
  moreover from Cons.prems(2) have "\<forall>c \<in> snd ` set ocs. c ''learning_rate'' = Some (Num x)"
    by simp
  note Cons.IH [OF 2 this]
  ultimately show ?case by (simp add: 3 kc)
qed

lemma train_epoch_lr:
  assumes "train_epoch n ep (t, s) = Inr (t', s')" and "lr_preserving U"
    and "lr_inv U K (Some (Num x)) s"
  shows "lr_inv U K (Some (Num (dmul x (lr_decay s)))) s' \<and> lr_decay s' = lr_decay s"
proof -
  from assms(1) obtain s2 train_acc tr_it val_acc te_it ocs h' where
    1: "for_each (train_batch n) (drop (cursor (train_dataiter s)) (batches (train_dataiter s)))
       (t, s\<lparr>printed := printed s @ [EpochStart ep],
             train_dataiter := snd (iterate (train_dataiter s))\<rparr>) = Inr (t', s2)"
    and 4: "decay_all (array_imul (model s2)) (lr_decay s2) (optim_configs s2) (store s2)
          = Inr (ocs, h')"
    and 5: "s' = s2\<lparr>train_dataiter := reset_iter tr_it,
             test_dataiter := reset_iter te_it,
             train_acc_history := train_acc_history s2 @ [train_acc],
             val_acc_history := val_acc_history s2 @ [val_acc],
             printed := printed s2 @
               (if verbose s2 then [EpochSummary (epoch s2) (num_epochs s2) train_acc val_acc]
                else []),
             best_val_acc := (if best_val_acc s2 < val_acc then val_acc else best_val_acc s2),
             best_params :=
               (if best_val_acc s2 < val_acc then snapshot (params (model s2))
                else best_params s2),
             optim_configs := ocs,
             store := h'\<rparr>"
    by (rule train_epoch_cases)
  have "lr_inv U K (Some (Num x)) (s\<lparr>printed := printed s @ [EpochStart ep],
             train_dataiter := snd (iterate (train_dataiter s))\<rparr>)"
    using assms(3) by (simp add: lr_inv_def)
  from train_batches_lr [OF 1 assms(2) this] have i: "lr_inv U K (Some (Num x)) s2" .
  from train_batches_effect [OF 1] have d: "lr_decay s2 = lr_decay s"
    by (simp add: step_frame_def)
  from i have "\<forall>c \<in> snd ` set (optim_configs s2). c ''learning_rate'' = Some (Num x)"
    by (simp add: lr_inv_def)
  from decay_all_lr [OF 4 this] have "map fst ocs = map fst (optim_configs s2)"
    and v: "\<forall>c \<in> snd ` set ocs. c ''learning_rate'' = Some (Num (dmul x (lr_decay s2)))"
    by auto
  then have "fst ` set ocs = fst ` set (optim_configs s2)"
    by (metis set_map)
  with i v d show ?thesis by (simp add: 5 lr_inv_def)
qed

lemma decayed_shift: "decayed (dmul x d) d n = dmul (decayed x d n) d"
  by (induction n) simp_all

lemma epochs_loop_lr:
  assumes "for_each (train_epoch n) eps (t, s) = Inr (t', s')" and "lr_preserving U"
    and "lr_inv U K (Some (Num x)) s"
  shows "lr_inv U K (Some (Num (decayed x (lr_decay s) (length eps)))) s'"
  using assms(1,3)
proof (induction eps arbitrary: t s x)
  case Nil
  then show ?case by simp
next
  case (Cons ep eps)
  then obtain t1 s1 where 1: "train_epoch n ep (t, s) = Inr (t1, s1)"
    and 2: "for_each (train_epoch n) eps (t1, s1) = Inr (t', s')"
    by (auto split: sum.splits)
  from train_epoch_lr [OF 1 assms(2) Cons.prems(2)]
  have i: "lr_inv U K (Some (Num (dmul x (lr_decay s)))) s1" and d: "lr_decay s1 = lr_decay s"
    by auto
  from Cons.IH [OF 2 i] show ?case by (simp add: d decayed_shift)
qed

lemma decayed_exact:
  assumes "valof x = Some r0" and "valof d = Some rd"
    and "\<forall>k < n. exact_product (decayed x d k) d"
  shows "valof (decayed x d n) = Some (r0 * rd ^ n)"
  using assms(3)
proof (induction n)
  case 0
  then show ?case by (simp add: assms(1))
next
  case (Suc n)
  then have "valof (decayed x d n) = Some (r0 * rd ^ n)" by simp
  moreover from Suc.prems have "exact_product (decayed x d n) d" by simp
  ultimately show ?case
    using assms(2) by (simp add: exact_product_def mult.assoc mult.commute)
qed

lemma fold_update_const:
  "fst ` set (fold (\<lambda>p d. AList.update p c d) ks acc) = set ks \<union> fst ` set acc \<and>
   snd ` set (fold (\<lambda>p d. AList.update p c d) ks acc) \<subseteq> insert c (snd ` set acc)"
proof (induction ks arbitrary: acc)
  case Nil
  then show ?case by auto
next
  case (Cons k ks)
  have u: "snd ` set (AList.update k c acc) \<subseteq> insert c (snd ` set acc)"
    by (auto dest!: set_update_subset)
  from Cons [of "AList.update k c acc"]
  have 1: "fst ` set (fold (\<lambda>p d. AList.update p c d) ks (AList.update k c acc)) =
      set ks \<union> fst ` set (AList.update k c acc)"
    and 2: "snd ` set (fold (\<lambda>p d. AList.update p c d) ks (AList.update k c acc))
      \<subseteq> insert c (snd ` set (AList.update k c acc))"
    by blast+
  from 2 u have "snd ` set (fold (\<lambda>p d. AList.update p c d) ks (AList.update k c acc))
      \<subseteq> insert c (snd ` set acc)"
    by blast
  with 1 show ?case by (simp add: dom_update)
qed

lemma reset_lr:
  assumes "optim_config s ''learning_rate'' = v"
  shows "lr_inv (update_rule s) (fst ` set (param_configs (model s))) v (reset s)"
  using fold_update_const [of "optim_config s" "map fst (param_configs (model s))" "[]"] assms
  by (auto simp: lr_inv_def reset_def)

lemma lr_inv_stored:
  assumes "lr_inv U K v s" and "p \<in> K"
  shows "stored_lr (optim_configs s) p = v"
proof -
  from assms have "p \<in> fst ` set (optim_configs s)" by (simp add: lr_inv_def)
  then obtain c where c: "map_of (optim_configs s) p = Some c"
    by (metis domD dom_map_of_conv_image_fst)
  then have "(p, c) \<in> set (optim_configs s)" by (rule map_of_SomeD)
  with assms(1) have "c ''learning_rate'' = v" by (force simp: lr_inv_def)
  with c show ?thesis by (simp add: stored_lr_def)
qed

lemma demo_run_B:
  "\<exists>s'. train (reset (demo_state float_0_1 float_0_5 3 0)) = Inr s'"
  by (simp add: demo_defs run_defs Let_def upt_conv_Cons)

lemma sgd_inplace_lr_preserving: "lr_preserving sgd_inplace"
  by (auto simp: lr_preserving_def sgd_inplace_def split: option.splits cval.splits)

text \<open>
  An array of rates is another matter. \<open>_reset\<close> means to "make a deep copy of the
  optim_config for each parameter" but copies the dictionary only, so that the
  configurations of all parameters hold the one array, and the loop of line 259
  multiplies it in place once per parameter: with two parameters and the decay 0.5, one
  epoch takes the rate from 1 to 1/4.
\<close>

lemma shared_rate_decays_once_per_parameter:
  "\<exists>s'. train (reset shared_rate_state) = Inr s'
     \<and> stored_lr (optim_configs s') ''w'' = Some (Ref 2)
     \<and> stored_lr (optim_configs s') ''b'' = Some (Ref 2)
     \<and> store shared_rate_state 2 = Some [1]
     \<and> store s' 2 = Some [1 / 4]"
  by (simp add: shared_rate_state_def stored_lr_def demo_defs run_defs Let_def upt_conv_Cons)

section \<open>The loop of the accuracy check\<close>

lemma acc_loop_closed:
  "acc_loop s bsz bs (a, n) = (a + sum_list (map (batch_matches s) bs), n + length bs * bsz)"
  by (induction bs arbitrary: a n) (auto simp: algebra_simps)

lemma accuracy_over_ratio:
  "value_of (accuracy_over s d) = ratio s (batch_size d) (drop (cursor d) (batches d))"
  by (simp add: accuracy_over_def iterate_def acc_loop_closed ratio_def value_of_def)

lemma value_of_sub:
  "value_of (case r of Inl e \<Rightarrow> Inl e | Inr (acc, _) \<Rightarrow> Inr (acc, d)) = value_of r"
  by (auto simp: value_of_def split: sum.splits)

lemma batch_matches_le: "batch_matches s b \<le> length (label b)"
proof -
  have "batch_matches s b \<le>
      length (zip (forward (model s) (store s) (params (model s)) (data b)) (label b))"
    unfolding batch_matches_def Let_def by (rule length_filter_le)
  then show ?thesis by simp
qed

lemma sum_matches_le:
  assumes "\<forall>b \<in> set bs. length (label b) \<le> bsz"
  shows "sum_list (map (batch_matches s) bs) \<le> length bs * bsz"
  using assms
proof (induction bs)
  case Nil
  then show ?case by simp
next
  case (Cons b bs)
  have "batch_matches s b \<le> bsz"
    using batch_matches_le [of s b] Cons.prems by simp
  with Cons show ?case by simp
qed


text \<open>\<open>argmax\<close> is the first index of a maximal entry, and the count is a cardinality.\<close>

lemma argmax_from_first_max:
  assumes "best < length pre" and "bv = pre ! best" and "i = length pre"
    and "\<forall>j < length pre. pre ! j \<le> pre ! best"
    and "\<forall>j < best. pre ! j < pre ! best"
  shows "argmax_from best bv i xs < length (pre @ xs)
    \<and> (\<forall>j < length (pre @ xs). (pre @ xs) ! j \<le> (pre @ xs) ! argmax_from best bv i xs)
    \<and> (\<forall>j < argmax_from best bv i xs. (pre @ xs) ! j < (pre @ xs) ! argmax_from best bv i xs)"
  using assms
proof (induction xs arbitrary: best bv i pre)
  case Nil
  then show ?case by simp
next
  case (Cons x xs)
  have app: "pre @ x # xs = (pre @ [x]) @ xs" by simp
  show ?case
  proof (cases "bv < x")
    case True
    have "argmax_from i x (Suc i) xs < length ((pre @ [x]) @ xs)
      \<and> (\<forall>j < length ((pre @ [x]) @ xs).
            ((pre @ [x]) @ xs) ! j \<le> ((pre @ [x]) @ xs) ! argmax_from i x (Suc i) xs)
      \<and> (\<forall>j < argmax_from i x (Suc i) xs.
            ((pre @ [x]) @ xs) ! j < ((pre @ [x]) @ xs) ! argmax_from i x (Suc i) xs)"
    proof (rule Cons.IH)
      show "i < length (pre @ [x])" using Cons.prems(3) by simp
      show "x = (pre @ [x]) ! i" using Cons.prems(3) by simp
      show "Suc i = length (pre @ [x])" using Cons.prems(3) by simp
      show "\<forall>j < length (pre @ [x]). (pre @ [x]) ! j \<le> (pre @ [x]) ! i"
        using Cons.prems True by (auto simp: nth_append less_Suc_eq intro: order_trans less_imp_le)
      show "\<forall>j < i. (pre @ [x]) ! j < (pre @ [x]) ! i"
        using Cons.prems True by (auto simp: nth_append intro: le_less_trans)
    qed
    with True show ?thesis unfolding app by simp
  next
    case False
    have "argmax_from best bv (Suc i) xs < length ((pre @ [x]) @ xs)
      \<and> (\<forall>j < length ((pre @ [x]) @ xs).
            ((pre @ [x]) @ xs) ! j \<le> ((pre @ [x]) @ xs) ! argmax_from best bv (Suc i) xs)
      \<and> (\<forall>j < argmax_from best bv (Suc i) xs.
            ((pre @ [x]) @ xs) ! j < ((pre @ [x]) @ xs) ! argmax_from best bv (Suc i) xs)"
    proof (rule Cons.IH)
      show "best < length (pre @ [x])" using Cons.prems(1) by simp
      show "bv = (pre @ [x]) ! best" using Cons.prems(1,2) by (simp add: nth_append)
      show "Suc i = length (pre @ [x])" using Cons.prems(3) by simp
      show "\<forall>j < length (pre @ [x]). (pre @ [x]) ! j \<le> (pre @ [x]) ! best"
        using Cons.prems False by (auto simp: nth_append less_Suc_eq)
      show "\<forall>j < best. (pre @ [x]) ! j < (pre @ [x]) ! best"
        using Cons.prems by (auto simp: nth_append)
    qed
    with False show ?thesis unfolding app by simp
  qed
qed

lemma argmax_first_max:
  assumes "row \<noteq> []"
  shows "argmax row < length row \<and> (\<forall>j < length row. row ! j \<le> row ! argmax row)
    \<and> (\<forall>j < argmax row. row ! j < row ! argmax row)"
proof -
  from assms obtain x xs where row: "row = x # xs" by (cases row) auto
  have "argmax_from 0 x 1 xs < length ([x] @ xs)
    \<and> (\<forall>j < length ([x] @ xs). ([x] @ xs) ! j \<le> ([x] @ xs) ! argmax_from 0 x 1 xs)
    \<and> (\<forall>j < argmax_from 0 x 1 xs. ([x] @ xs) ! j < ([x] @ xs) ! argmax_from 0 x 1 xs)"
    by (rule argmax_from_first_max) simp_all
  then show ?thesis by (simp add: row argmax_def)
qed

lemma batch_matches_card: "batch_matches s b = card (correct_examples s b)"
proof -
  let ?zs = "zip (predictions s b) (label b)"
  have "batch_matches s b = length (filter (\<lambda>(row, l). int (argmax row) = l) ?zs)"
    by (simp add: batch_matches_def predictions_def)
  also have "\<dots> = card {i. i < length ?zs \<and> (\<lambda>(row, l). int (argmax row) = l) (?zs ! i)}"
    by (rule length_filter_conv_card)
  also have "{i. i < length ?zs \<and> (\<lambda>(row, l). int (argmax row) = l) (?zs ! i)}
      = correct_examples s b"
    by (auto simp: correct_examples_def)
  finally show ?thesis .
qed

lemma check_accuracy_checked_batches:
  "value_of (check_accuracy s d ns bsz) = ratio s (batch_size d) (checked_batches d ns)"
proof -
  have "value_of (accuracy_over s (getsubiter d n)) = ratio s (batch_size d) (subiter d n)" for n
    by (simp add: accuracy_over_ratio getsubiter_def)
  then show ?thesis
    by (simp add: check_accuracy_def checked_batches_def Let_def value_of_sub accuracy_over_ratio
        split: option.splits)
qed

lemmas echo_eval = echo_state_def echo_iter_def echo_batch1_def echo_batch2_def echo_batch3_def
  long_batch_iter_def zero_size_iter_def check_accuracy_def accuracy_over_def iterate_def
  getsubiter_def batch_matches_def argmax_def value_of_def Let_def

section \<open>The snapshot\<close>

text \<open>
  The loop that fills \<open>best_params\<close> stores \<open>v\<close>, not \<open>v.copy()\<close>: the snapshot of a
  dictionary is the dictionary of the same references.
\<close>

lemma update_fresh: "k \<notin> fst ` set al \<Longrightarrow> AList.update k v al = al @ [(k, v)]"
  by (induction al) auto

lemma snapshot_fold:
  "distinct (map fst (acc @ ps)) \<Longrightarrow>
     fold (\<lambda>kv d. case kv of (k, v) \<Rightarrow> AList.update k v d) ps acc = acc @ ps"
proof (induction ps arbitrary: acc)
  case Nil
  then show ?case by simp
next
  case (Cons kv ps)
  obtain k v where kv: "kv = (k, v)" by (cases kv)
  from Cons.prems kv have "k \<notin> fst ` set acc" by auto
  then have u: "AList.update k v acc = acc @ [(k, v)]" by (rule update_fresh)
  from Cons.prems kv have "distinct (map fst ((acc @ [(k, v)]) @ ps))" by simp
  from Cons.IH [OF this] show ?case by (simp add: kv u)
qed

lemma snapshot_same_references: "distinct (map fst ps) \<Longrightarrow> snapshot ps = ps"
  using snapshot_fold [of "[]" ps] by (simp add: snapshot_def)
section \<open>Construction\<close>

text \<open>
  C9 (as amended). \<open>__init__\<close> checks the left-over keyword arguments first, then the update
  rule, then the init rule. A configuration with a key outside the recognized set fails
  with the error for unrecognized arguments, whatever the rule names are. A configuration
  without such a key fails with the error for an invalid update rule when the update rule
  is not in the optimizer module, and with the error for an invalid init rule when the
  update rule resolves and the init rule is not in the initializer module. Construction
  succeeds exactly when there is no such key and both names resolve.
\<close>

theorem Solver_init_errors:
  "(kw_rest kw \<noteq> [] \<longrightarrow>
      Solver_init optim init h m tr te kw = Inl (UnrecognizedArguments (kw_rest kw)))
   \<and> (kw_rest kw = [] \<and> optim (pop (kw_update_rule kw) ''sgd'') = None \<longrightarrow>
      Solver_init optim init h m tr te kw =
        Inl (InvalidUpdateRule (pop (kw_update_rule kw) ''sgd'')))
   \<and> (kw_rest kw = [] \<and> optim (pop (kw_update_rule kw) ''sgd'') \<noteq> None
        \<and> init (pop (kw_init_rule kw) ''xavier'') = None \<longrightarrow>
      Solver_init optim init h m tr te kw =
        Inl (InvalidInitRule (pop (kw_init_rule kw) ''xavier'')))
   \<and> ((\<exists>s. Solver_init optim init h m tr te kw = Inr s) \<longleftrightarrow>
        kw_rest kw = [] \<and> optim (pop (kw_update_rule kw) ''sgd'') \<noteq> None
        \<and> init (pop (kw_init_rule kw) ''xavier'') \<noteq> None)"
  by (auto simp: Solver_init_def Let_def split: option.splits)

text \<open>
  The four cases at concrete configurations: an unknown key \<open>foo\<close>; the update rule
  \<open>bogus\<close>; the init rule \<open>bogus\<close>; the configuration of the small instance.
\<close>

theorem Solver_init_errors_witness:
  "Solver_init demo_optim demo_init demo_heap demo_model (demo_iter 1000 0) (demo_iter 2 0)
     ((demo_kwargs 1 1 2)\<lparr>kw_rest := [''foo'']\<rparr>) = Inl (UnrecognizedArguments [''foo''])
   \<and> Solver_init demo_optim demo_init demo_heap demo_model (demo_iter 1000 0) (demo_iter 2 0)
     ((demo_kwargs 1 1 2)\<lparr>kw_update_rule := Some ''bogus''\<rparr>) = Inl (InvalidUpdateRule ''bogus'')
   \<and> Solver_init demo_optim demo_init demo_heap demo_model (demo_iter 1000 0) (demo_iter 2 0)
     ((demo_kwargs 1 1 2)\<lparr>kw_init_rule := Some ''bogus''\<rparr>) = Inl (InvalidInitRule ''bogus'')
   \<and> (\<exists>s. Solver_init demo_optim demo_init demo_heap demo_model (demo_iter 1000 0)
          (demo_iter 2 0) (demo_kwargs 1 1 2) = Inr s)"
  using
    Solver_init_errors [of "(demo_kwargs 1 1 2)\<lparr>kw_rest := [''foo'']\<rparr>" demo_optim demo_init
      demo_heap demo_model "demo_iter 1000 0" "demo_iter 2 0"]
    Solver_init_errors [of "(demo_kwargs 1 1 2)\<lparr>kw_update_rule := Some ''bogus''\<rparr>" demo_optim
      demo_init demo_heap demo_model "demo_iter 1000 0" "demo_iter 2 0"]
    Solver_init_errors [of "(demo_kwargs 1 1 2)\<lparr>kw_init_rule := Some ''bogus''\<rparr>" demo_optim
      demo_init demo_heap demo_model "demo_iter 1000 0" "demo_iter 2 0"]
    Solver_init_errors [of "demo_kwargs 1 1 2" demo_optim
      demo_init demo_heap demo_model "demo_iter 1000 0" "demo_iter 2 0"]
  by (simp add: demo_kwargs_def demo_optim_def demo_init_def pop_def)

text \<open>
  C9 as stated fails: with the unknown key \<open>foo\<close> and the update rule \<open>bogus\<close>, which is
  not in the optimizer module, the constructor raises the error for unrecognized
  arguments, not the one for an invalid update rule.
\<close>

theorem Solver_init_bogus_rule_counterexample:
  "demo_optim ''bogus'' = None
   \<and> Solver_init demo_optim demo_init demo_heap demo_model (demo_iter 1000 0) (demo_iter 2 0)
       ((demo_kwargs 1 1 2)\<lparr>kw_update_rule := Some ''bogus'', kw_rest := [''foo'']\<rparr>)
     = Inl (UnrecognizedArguments [''foo''])
   \<and> Solver_init demo_optim demo_init demo_heap demo_model (demo_iter 1000 0) (demo_iter 2 0)
       ((demo_kwargs 1 1 2)\<lparr>kw_update_rule := Some ''bogus'', kw_rest := [''foo'']\<rparr>)
     \<noteq> Inl (InvalidUpdateRule ''bogus'')"
  by (simp add: Solver_init_def demo_kwargs_def demo_optim_def pop_def)

section \<open>Histories\<close>

text \<open>
  C6. Every call of \<open>_step\<close> that returns appends exactly one loss to \<open>loss_history\<close>.
  Hence, when \<open>train\<close> returns on a solver as \<open>_reset\<close> leaves it, the length of
  \<open>loss_history\<close> is the number of epochs times the number of batches of a full pass of
  the training iterator.
\<close>

theorem loss_history_length:
  "(step s b = Inr s1 \<longrightarrow> (\<exists>l. loss_history s1 = loss_history s @ [l]))
   \<and> (train (reset s) = Inr s' \<longrightarrow>
        length (loss_history s') = nat (num_epochs s) * getnumiterations (train_dataiter s))"
proof (intro conjI impI)
  assume "step s b = Inr s1"
  from step_effect[OF this] show "\<exists>l. loss_history s1 = loss_history s @ [l]" by blast
next
  assume "train (reset s) = Inr s'"
  then obtain t s2 where r: "run_epochs [0..<nat (num_epochs s)] (reset s) = Inr (t, s2)"
    and s': "s' = s2\<lparr>model := (model s2)\<lparr>params := best_params s2\<rparr>\<rparr>"
    by (auto elim!: train_cases simp: reset_fields)
  from r have "length (loss_history s2) =
      length (loss_history (reset s)) +
        length [0..<nat (num_epochs s)] * length (batches (train_dataiter (reset s)))"
    unfolding run_epochs_def by (blast dest: epochs_loop_effect intro: reset_fields)
  then show "length (loss_history s') = nat (num_epochs s) * getnumiterations (train_dataiter s)"
    by (simp add: s' reset_fields getnumiterations_def)
qed

theorem loss_history_length_witness:
  "\<exists>s'. train (reset (demo_state 1 1 2 0)) = Inr s' \<and> length (loss_history s') = 2 * 2
     \<and> nat (num_epochs (demo_state 1 1 2 0)) = 2
     \<and> getnumiterations (train_dataiter (demo_state 1 1 2 0)) = 2"
proof -
  obtain s' where t: "train (reset (demo_state 1 1 2 0)) = Inr s'"
    using demo_run_A by blast
  from loss_history_length [where s = "demo_state 1 1 2 0" and s' = s'] t
  show ?thesis
    by (simp add: demo_state_def getnumiterations_def demo_iter_def)
qed

text \<open>
  C3. An epoch never lowers \<open>best_val_acc\<close>. After any number of completed epochs of a
  run that starts from a reset solver, and after \<open>train\<close> itself, \<open>best_val_acc\<close> is the
  maximum of its initial value 0 and of the values appended to \<open>val_acc_history\<close> so far.
\<close>

theorem best_val_acc_is_max:
  "(train_epoch n ep (t, s) = Inr (t1, s1) \<longrightarrow> best_val_acc s \<le> best_val_acc s1)
   \<and> (run_epochs [0..<e] (reset s0) = Inr (t2, s2) \<longrightarrow>
        best_val_acc s2 = Max (insert 0 (set (val_acc_history s2))))
   \<and> (train (reset s0) = Inr s' \<longrightarrow>
        best_val_acc s' = Max (insert 0 (set (val_acc_history s'))))"
proof (intro conjI impI)
  assume "train_epoch n ep (t, s) = Inr (t1, s1)"
  then have "for_each (train_epoch n) [ep] (t, s) = Inr (t1, s1)" by simp
  from best_val_acc_loop[OF this] show "best_val_acc s \<le> best_val_acc s1" by simp
next
  assume "run_epochs [0..<e] (reset s0) = Inr (t2, s2)"
  then show "best_val_acc s2 = Max (insert 0 (set (val_acc_history s2)))"
    unfolding run_epochs_def by (auto dest!: best_val_acc_loop simp: reset_fields)
next
  assume "train (reset s0) = Inr s'"
  then obtain t s3 where r: "run_epochs [0..<nat (num_epochs s0)] (reset s0) = Inr (t, s3)"
    and s': "s' = s3\<lparr>model := (model s3)\<lparr>params := best_params s3\<rparr>\<rparr>"
    by (auto elim!: train_cases simp: reset_fields)
  from r have "best_val_acc s3 = Max (insert 0 (set (val_acc_history s3)))"
    unfolding run_epochs_def by (auto dest!: best_val_acc_loop simp: reset_fields)
  then show "best_val_acc s' = Max (insert 0 (set (val_acc_history s')))"
    by (simp add: s')
qed

theorem best_val_acc_is_max_witness:
  "\<exists>s'. train (reset (demo_state 1 1 2 0)) = Inr s' \<and> val_acc_history s' = [1, 0]
     \<and> best_val_acc s' = 1"
proof -
  obtain s' where t: "train (reset (demo_state 1 1 2 0)) = Inr s'"
    and v: "val_acc_history s' = [1, 0]"
    using demo_run_A by blast
  from best_val_acc_is_max [where ?s0.0 = "demo_state 1 1 2 0" and s' = s'] t v
  have "best_val_acc s' = 1" by simp blast
  with t v show ?thesis by simp
qed

section \<open>The best parameters\<close>

text \<open>
  C5. If \<open>train\<close> returns and no validation accuracy of the run is greater than 0, no
  snapshot was ever taken: \<open>best_params\<close> is still the empty dictionary of \<open>_reset\<close>, and the
  last assignment of \<open>train\<close> leaves the model with no parameters at all.
\<close>

theorem no_improvement_empties_model:
  assumes "train (reset s) = Inr s'"
    and "\<forall>v \<in> set (val_acc_history s'). \<not> 0 < v"
  shows "best_params s' = [] \<and> params (model s') = []"
proof -
  from assms(1) obtain t s1 where r: "run_epochs [0..<nat (num_epochs s)] (reset s) = Inr (t, s1)"
    and s': "s' = s1\<lparr>model := (model s1)\<lparr>params := best_params s1\<rparr>\<rparr>"
    by (auto elim!: train_cases simp: reset_fields)
  from assms(2) have "\<forall>v \<in> set (val_acc_history s1). \<not> 0 < v" by (simp add: s')
  with r have "best_params s1 = []"
    unfolding run_epochs_def by (blast dest: no_snapshot_loop intro: reset_fields)
  then show ?thesis by (simp add: s')
qed

theorem no_improvement_empties_model_witness:
  "\<exists>s'. train (reset (demo_state 0 1 2 1)) = Inr s' \<and> val_acc_history s' = [0, 0]
     \<and> best_params s' = [] \<and> params (model s') = []"
proof -
  obtain s' where t: "train (reset (demo_state 0 1 2 1)) = Inr s'"
    and v: "val_acc_history s' = [0, 0]"
    using demo_run_C by blast
  from v have "\<forall>v \<in> set (val_acc_history s'). \<not> 0 < v" by simp
  from no_improvement_empties_model [OF t this] t v show ?thesis by simp
qed

section \<open>The epoch counter\<close>

text \<open>
  C10. \<open>_reset\<close> sets \<open>epoch\<close> to 0 and nothing changes it: not \<open>_step\<close>, not \<open>train\<close>
  (\<open>check_accuracy\<close> returns no solver state at all). It is 0 after every completed epoch
  and after the run, and every epoch summary that a run prints reports the epoch index
  0: with \<open>verbose\<close>, the summaries of a run are as many zeros as there are epochs.
\<close>

theorem epoch_stays_zero:
  "epoch (reset s) = 0
   \<and> (step s b = Inr s1 \<longrightarrow> epoch s1 = epoch s)
   \<and> (train s = Inr s2 \<longrightarrow> epoch s2 = epoch s)
   \<and> (run_epochs [0..<e] (reset s) = Inr (t, s3) \<longrightarrow> epoch s3 = 0)
   \<and> (train (reset s) = Inr s' \<longrightarrow>
        epoch s' = 0 \<and>
        (\<exists>new. printed s' = printed s @ new \<and>
           summary_epochs new = (if verbose s then replicate (nat (num_epochs s)) 0 else [])))"
proof (intro conjI impI)
  show "epoch (reset s) = 0" by (simp add: reset_fields)
next
  assume "step s b = Inr s1"
  from step_effect[OF this] show "epoch s1 = epoch s" by (simp add: step_frame_def)
next
  assume "train s = Inr s2"
  then show "epoch s2 = epoch s"
    by (auto elim!: train_cases simp: run_epochs_def dest!: epochs_loop_epoch)
next
  assume "run_epochs [0..<e] (reset s) = Inr (t, s3)"
  then show "epoch s3 = 0"
    by (auto simp: run_epochs_def reset_fields dest!: epochs_loop_epoch)
next
  assume a: "train (reset s) = Inr s'"
  then show "epoch s' = 0"
    by (auto elim!: train_cases simp: run_epochs_def reset_fields dest!: epochs_loop_epoch)
  from a obtain t s4 where r: "run_epochs [0..<nat (num_epochs s)] (reset s) = Inr (t, s4)"
    and s': "s' = s4\<lparr>model := (model s4)\<lparr>params := best_params s4\<rparr>\<rparr>"
    by (auto elim!: train_cases simp: reset_fields)
  from r have "\<exists>new. printed s4 = printed (reset s) @ new \<and>
      summary_epochs new =
        (if verbose (reset s) then replicate (length [0..<nat (num_epochs s)]) (epoch (reset s))
         else [])"
    unfolding run_epochs_def by (blast dest: epochs_loop_effect intro: reset_fields)
  then show "\<exists>new. printed s' = printed s @ new \<and>
           summary_epochs new = (if verbose s then replicate (nat (num_epochs s)) 0 else [])"
    by (cases "verbose s") (auto simp: s' reset_fields)
qed

theorem epoch_stays_zero_witness:
  "\<exists>s'. train (reset (demo_state 1 1 2 0)) = Inr s' \<and> epoch s' = 0
     \<and> summary_epochs (printed s') = [0, 0]"
proof -
  obtain s' where t: "train (reset (demo_state 1 1 2 0)) = Inr s'"
    using demo_run_A by blast
  from epoch_stays_zero [where s = "demo_state 1 1 2 0" and s' = s'] t
  show ?thesis
    by (auto simp: demo_state_def numeral_2_eq_2)
qed

section \<open>Learning-rate decay\<close>

text \<open>
  C2 (as amended). Let the update rule keep the entry \<open>learning_rate\<close> of the
  configuration it is given, and let the learning rate of the optimizer configuration be
  a float \<open>lr0\<close>. Then after \<open>e\<close> completed epochs of a run from a reset solver, the
  learning rate stored for every parameter of the model's \<open>param_configs\<close> is \<open>lr0\<close>
  multiplied \<open>e\<close> times by \<open>lr_decay\<close>, every product rounded to a double, and after
  \<open>train\<close> it is \<open>lr0\<close> multiplied so \<open>num_epochs\<close> times. This is the number
  \<open>lr0 * lr_decay ^ e\<close> whenever none of the products rounds.
\<close>

theorem learning_rate_decay:
  assumes "lr_preserving (update_rule s)"
    and "optim_config s ''learning_rate'' = Some (Num lr0)"
  shows "(run_epochs [0..<e] (reset s) = Inr (t, s1) \<longrightarrow>
           (\<forall>p \<in> fst ` set (param_configs (model s)).
              stored_lr (optim_configs s1) p = Some (Num (decayed lr0 (lr_decay s) e))))
    \<and> (train (reset s) = Inr s' \<longrightarrow>
           (\<forall>p \<in> fst ` set (param_configs (model s)).
              stored_lr (optim_configs s') p =
                Some (Num (decayed lr0 (lr_decay s) (nat (num_epochs s))))))
    \<and> (valof lr0 = Some r0 \<and> valof (lr_decay s) = Some rd \<and>
        (\<forall>k < n. exact_product (decayed lr0 (lr_decay s) k) (lr_decay s)) \<longrightarrow>
        valof (decayed lr0 (lr_decay s) n) = Some (r0 * rd ^ n))"
proof (intro conjI impI ballI)
  fix p
  assume p: "p \<in> fst ` set (param_configs (model s))"
  note r = reset_lr [OF assms(2)]
  {
    assume "run_epochs [0..<e] (reset s) = Inr (t, s1)"
    then have "lr_inv (update_rule s) (fst ` set (param_configs (model s)))
        (Some (Num (decayed lr0 (lr_decay (reset s)) (length [0..<e])))) s1"
      unfolding run_epochs_def using assms(1) r by (rule epochs_loop_lr)
    from lr_inv_stored [OF this p]
    show "stored_lr (optim_configs s1) p = Some (Num (decayed lr0 (lr_decay s) e))"
      by (simp add: reset_fields)
  }
  {
    assume "train (reset s) = Inr s'"
    then obtain t2 s2 where
      r2: "run_epochs [0..<nat (num_epochs s)] (reset s) = Inr (t2, s2)"
      and s': "s' = s2\<lparr>model := (model s2)\<lparr>params := best_params s2\<rparr>\<rparr>"
      by (auto elim!: train_cases simp: reset_fields)
    from r2 have "lr_inv (update_rule s) (fst ` set (param_configs (model s)))
        (Some (Num (decayed lr0 (lr_decay (reset s)) (length [0..<nat (num_epochs s)])))) s2"
      unfolding run_epochs_def using assms(1) r by (rule epochs_loop_lr)
    from lr_inv_stored [OF this p]
    show "stored_lr (optim_configs s') p =
        Some (Num (decayed lr0 (lr_decay s) (nat (num_epochs s))))"
      by (simp add: reset_fields s')
  }
next
  assume "valof lr0 = Some r0 \<and> valof (lr_decay s) = Some rd \<and>
        (\<forall>k < n. exact_product (decayed lr0 (lr_decay s) k) (lr_decay s))"
  then show "valof (decayed lr0 (lr_decay s) n) = Some (r0 * rd ^ n)"
    by (blast intro: decayed_exact)
qed

text \<open>
  The scenario of the claim: two parameters, learning rate 0.1, decay 0.5, three epochs.
  The products by 0.5 are exact, and after training each stored learning rate is the
  double 0.0125, which is the double 0.1 times \<open>0.5 ^ 3\<close>.
\<close>

theorem learning_rate_decay_witness:
  "\<exists>s'. train (reset (demo_state float_0_1 float_0_5 3 0)) = Inr s'
     \<and> stored_lr (optim_configs s') ''w'' = Some (Num float_0_0125)
     \<and> stored_lr (optim_configs s') ''b'' = Some (Num float_0_0125)
     \<and> valof float_0_1 = Some (7205759403792794 / 2 ^ 56)
     \<and> valof float_0_0125 = Some (7205759403792794 / 2 ^ 56 * (1 / 2) ^ 3)"
proof -
  let ?s = "demo_state float_0_1 float_0_5 3 0"
  obtain s' where t: "train (reset ?s) = Inr s'"
    using demo_run_B by blast
  have 1: "lr_preserving (update_rule ?s)"
    by (simp add: demo_state_def sgd_inplace_lr_preserving)
  have 2: "optim_config ?s ''learning_rate'' = Some (Num float_0_1)"
    by (simp add: demo_state_def)
  have d: "lr_decay ?s = float_0_5" "nat (num_epochs ?s) = Suc (Suc (Suc 0))"
    "fst ` set (param_configs (model ?s)) = {''w'', ''b''}"
    by (auto simp: demo_state_def demo_model_def)
  have v: "valof float_0_1 = Some (7205759403792794 / 2 ^ 56)" "valof float_0_5 = Some (1 / 2)"
    by (simp_all add: float_0_1_def float_0_5_def)
  have x: "\<forall>k < Suc (Suc (Suc 0)). exact_product (decayed float_0_1 float_0_5 k) float_0_5"
    unfolding All_less_Suc decayed.simps exact_product_def dmul_half
    by (simp add: float_0_1_def float_0_5_def float_0_0125_def)
  from learning_rate_decay [OF 1 2, where s' = s' and ?r0.0 = "7205759403792794 / 2 ^ 56"
      and rd = "1 / 2" and n = "Suc (Suc (Suc 0))"] t v x
  have "stored_lr (optim_configs s') ''w'' = Some (Num (decayed float_0_1 float_0_5 (Suc (Suc (Suc 0)))))"
    and "stored_lr (optim_configs s') ''b'' = Some (Num (decayed float_0_1 float_0_5 (Suc (Suc (Suc 0)))))"
    and "valof (decayed float_0_1 float_0_5 (Suc (Suc (Suc 0))))
           = Some (7205759403792794 / 2 ^ 56 * (1 / 2) ^ Suc (Suc (Suc 0)))"
    unfolding d by blast+
  then show ?thesis using t v
    by (simp add: dmul_half numeral_3_eq_3)
qed

text \<open>
  C2 as stated fails: with the learning rate 0.001, the decay 0.95 and ten epochs
  (the configuration of the class docstring, with its ten epochs by default), the
  learning rate stored after training is the double \<open>5522373542803277 * 2^-63\<close>
  (0.0005987369392383785). The number \<open>lr0 * lr_decay ^ 10\<close>, for the doubles \<open>lr0\<close> and
  \<open>lr_decay\<close> that Python reads, is greater than the next double above it.
\<close>

theorem learning_rate_decay_counterexample:
  "final_lr (train (reset (demo_state float_0_001 float_0_95 10 0))) ''w''
     = Some (Num (Finite False 5522373542803277 (- 63)))
   \<and> valof (Finite False 5522373542803277 (- 63)) = Some (5522373542803277 / 2 ^ 63)
   \<and> valof float_0_001 = Some (4611686018427388 / 2 ^ 62)
   \<and> valof float_0_95 = Some (8556839292003942 / 2 ^ 53)
   \<and> (5522373542803277 / 2 ^ 63 :: real) < 5522373542803278 / 2 ^ 63
   \<and> (5522373542803278 / 2 ^ 63 :: real)
       < 4611686018427388 / 2 ^ 62 * (8556839292003942 / 2 ^ 53) ^ 10"
proof (intro conjI)
  show "final_lr (train (reset (demo_state float_0_001 float_0_95 10 0))) ''w''
     = Some (Num (Finite False 5522373542803277 (- 63)))"
    by (simp add: final_lr_def stored_lr_def demo_defs run_defs Let_def upt_conv_Cons)
  show "(5522373542803278 / 2 ^ 63 :: real)
       < 4611686018427388 / 2 ^ 62 * (8556839292003942 / 2 ^ 53) ^ 10"
    by (simp add: power_divide field_simps)
qed (simp_all add: float_0_001_def float_0_95_def)

section \<open>Accuracy\<close>



text \<open>
  C8 (as amended). The predicted class of a row of scores is the first index of a maximal
  score. Let the evaluation run over at least one batch and let the configured batch
  size of the iterator be positive. Then \<open>check_accuracy\<close> returns the number of
  examples whose predicted class equals their label, divided by the number of batches
  times the configured batch size. The quotient is not negative, and it is at most 1 when
  no batch holds more examples than the configured batch size. (The quotient is the exact
  one; Python returns the double nearest to it.)
\<close>

theorem check_accuracy_counts_matches:
  "(row \<noteq> [] \<longrightarrow>
      argmax row < length row \<and> (\<forall>j < length row. row ! j \<le> row ! argmax row)
      \<and> (\<forall>j < argmax row. row ! j < row ! argmax row))
   \<and> (checked_batches d ns \<noteq> [] \<and> 0 < batch_size d \<longrightarrow>
        (\<exists>acc. value_of (check_accuracy s d ns bsz) = Inr acc
           \<and> acc = real (\<Sum>b\<leftarrow>checked_batches d ns. card (correct_examples s b))
                   / real (length (checked_batches d ns) * batch_size d)
           \<and> 0 \<le> acc
           \<and> ((\<forall>b \<in> set (checked_batches d ns). length (label b) \<le> batch_size d)
                \<longrightarrow> acc \<le> 1)))"
proof (intro conjI impI)
  assume "row \<noteq> []"
  from argmax_first_max [OF this]
  show "argmax row < length row" "\<forall>j < length row. row ! j \<le> row ! argmax row"
    "\<forall>j < argmax row. row ! j < row ! argmax row"
    by blast+
next
  let ?bs = "checked_batches d ns"
  let ?n = "\<Sum>b\<leftarrow>?bs. card (correct_examples s b)"
  assume a: "?bs \<noteq> [] \<and> 0 < batch_size d"
  then have nz: "length ?bs * batch_size d \<noteq> 0" by simp
  have "batch_matches s = (\<lambda>b. card (correct_examples s b))"
    by (rule ext) (rule batch_matches_card)
  then have n: "sum_list (map (batch_matches s) ?bs) = ?n"
    by simp
  have v: "value_of (check_accuracy s d ns bsz) = Inr (real ?n / real (length ?bs * batch_size d))"
    using nz by (simp add: check_accuracy_checked_batches ratio_def n)
  have le: "(\<forall>b \<in> set ?bs. length (label b) \<le> batch_size d) \<longrightarrow>
      real ?n / real (length ?bs * batch_size d) \<le> 1"
  proof
    assume "\<forall>b \<in> set ?bs. length (label b) \<le> batch_size d"
    from sum_matches_le [OF this, of s] have "?n \<le> length ?bs * batch_size d"
      by (simp add: n)
    then show "real ?n / real (length ?bs * batch_size d) \<le> 1"
      using nz by (simp add: divide_le_eq_1 del: of_nat_mult)
  qed
  show "\<exists>acc. value_of (check_accuracy s d ns bsz) = Inr acc
           \<and> acc = real ?n / real (length ?bs * batch_size d)
           \<and> 0 \<le> acc
           \<and> ((\<forall>b \<in> set ?bs. length (label b) \<le> batch_size d) \<longrightarrow> acc \<le> 1)"
    using v le by simp
qed

text \<open>
  On the second instance: a tie goes to the first index and a third class is found; the
  two batches have 3 and 1 correct examples of 4 and 2, which gives 4 over 2 times 4 for
  the whole iterator and 3 over 4 for the sub-iterator of 4 items.
\<close>

theorem check_accuracy_counts_matches_witness:
  "argmax [5, 5, 1] = 0 \<and> argmax [0, 0, 3] = 2
   \<and> value_of (check_accuracy echo_state echo_iter None 100) = Inr (1 / 2)
   \<and> real (\<Sum>b\<leftarrow>[echo_batch1, echo_batch2]. card (correct_examples echo_state b)) / 8 = 1 / 2
   \<and> value_of (check_accuracy echo_state echo_iter (Some 4) 100) = Inr (3 / 4)
   \<and> real (\<Sum>b\<leftarrow>[echo_batch1]. card (correct_examples echo_state b)) / 4 = 3 / 4"
proof -
  have r1: "[5, 5, 1] \<noteq> ([] :: real list)" and r2: "[0, 0, 3] \<noteq> ([] :: real list)"
    by simp_all
  have a1: "argmax [5, 5, 1] = 0"
    using check_accuracy_counts_matches [where row = "[5, 5, 1]"] r1 by (simp add: argmax_def)
  have a2: "argmax [0, 0, 3] = 2"
    using check_accuracy_counts_matches [where row = "[0, 0, 3]"] r2 by (simp add: argmax_def)
  have c1: "checked_batches echo_iter None = [echo_batch1, echo_batch2]"
    and c2: "checked_batches echo_iter (Some 4) = [echo_batch1]"
    and bs: "batch_size echo_iter = 4"
    by (simp_all add: checked_batches_def echo_iter_def)
  have l: "\<forall>b \<in> set [echo_batch1, echo_batch2]. length (label b) \<le> 4"
    by (simp add: echo_batch1_def echo_batch2_def)
  have e1: "value_of (check_accuracy echo_state echo_iter None 100) = Inr (1 / 2)"
    by (simp add: echo_eval)
  have e2: "value_of (check_accuracy echo_state echo_iter (Some 4) 100) = Inr (3 / 4)"
    by (simp add: echo_eval)
  from check_accuracy_counts_matches [where d = echo_iter and ns = None and s = echo_state
      and bsz = 100] l
  have "\<exists>acc. value_of (check_accuracy echo_state echo_iter None 100) = Inr acc
      \<and> acc = real (\<Sum>b\<leftarrow>[echo_batch1, echo_batch2]. card (correct_examples echo_state b))
              / real (2 * 4) \<and> 0 \<le> acc \<and> acc \<le> 1"
    unfolding c1 bs by simp
  with e1 have s1:
    "real (\<Sum>b\<leftarrow>[echo_batch1, echo_batch2]. card (correct_examples echo_state b)) / 8 = 1 / 2"
    by auto
  from check_accuracy_counts_matches [where d = echo_iter and ns = "Some 4" and s = echo_state
      and bsz = 100] l
  have "\<exists>acc. value_of (check_accuracy echo_state echo_iter (Some 4) 100) = Inr acc
      \<and> acc = real (\<Sum>b\<leftarrow>[echo_batch1]. card (correct_examples echo_state b))
              / real (1 * 4) \<and> 0 \<le> acc \<and> acc \<le> 1"
    unfolding c2 bs by simp
  with e2 have s2:
    "real (\<Sum>b\<leftarrow>[echo_batch1]. card (correct_examples echo_state b)) / 4 = 3 / 4"
    by auto
  from a1 a2 e1 s1 e2 s2 show ?thesis by blast
qed

text \<open>
  C8 as stated fails: an iterator that produces one batch of two examples, both predicted
  correctly, gives the accuracy 2 when its configured batch size is 1, and a division by
  zero when its configured batch size is 0.
\<close>

theorem check_accuracy_counts_matches_counterexample:
  "value_of (check_accuracy echo_state long_batch_iter None 100) = Inr 2
   \<and> value_of (check_accuracy echo_state zero_size_iter None 100) = Inl ZeroDivisionError"
  by (simp add: echo_eval)

section \<open>The snapshot of the best parameters is shared with the model\<close>

text \<open>
  C1. The claim is that after \<open>train\<close> the parameters of the model have the values they
  had at the end of the epoch of the best validation accuracy. On the small instance, with
  the in-place update rule, learning rate 1, no decay and two epochs, the validation
  accuracies are 1 and 0, so the best epoch is the first, at whose end \<open>w = 1\<close> and
  \<open>b = -2\<close>. After \<open>train\<close> the parameters of the model are \<open>w = -1\<close> and \<open>b = -4\<close>, the values
  of the last epoch: the snapshot holds the arrays themselves, which the second epoch
  went on updating.
\<close>

theorem train_leaves_last_values:
  "\<exists>t1 s1 s'. run_epochs [0] (reset (demo_state 1 1 2 0)) = Inr (t1, s1)
     \<and> train (reset (demo_state 1 1 2 0)) = Inr s'
     \<and> val_acc_history s1 = [1] \<and> val_acc_history s' = [1, 0] \<and> best_val_acc s' = 1
     \<and> deref (store s1) (params (model s1)) = [(''w'', Some [1]), (''b'', Some [- 2])]
     \<and> deref (store s') (params (model s')) = [(''w'', Some [- 1]), (''b'', Some [- 4])]"
  by (simp add: demo_defs run_defs Let_def upt_conv_Cons)

text \<open>
  C4. The claim is that the snapshot is a fresh dictionary with an independent copy of
  every parameter value. On the same instance the snapshot taken in the first epoch holds
  the very references of the parameters of the model; the second epoch takes no snapshot
  (its accuracy 0 is not greater than 1) and leaves \<open>best_params\<close> as it is, and yet the
  values that the snapshot refers to have changed from \<open>(1, -2)\<close> to \<open>(-1, -4)\<close>.
\<close>

theorem snapshot_is_not_a_copy:
  "\<exists>t1 s1 t2 s2. run_epochs [0] (reset (demo_state 1 1 2 0)) = Inr (t1, s1)
     \<and> run_epochs [0, 1] (reset (demo_state 1 1 2 0)) = Inr (t2, s2)
     \<and> val_acc_history s2 = [1, 0]
     \<and> best_params s1 = params (model s1)
     \<and> best_params s2 = best_params s1
     \<and> deref (store s1) (best_params s1) = [(''w'', Some [1]), (''b'', Some [- 2])]
     \<and> deref (store s2) (best_params s2) = [(''w'', Some [- 1]), (''b'', Some [- 4])]"
  by (simp add: demo_defs run_defs Let_def)
end
